theory Spec2Isabelle
  imports Complex_Main "HOL-Library.Log_Nat" "HOL-Library.Sublist" "HOL-Library.Word"
begin

section \<open>NutriSnap (app.py): a shallow embedding\<close>

text \<open>
  The program is one Streamlit script, \<^verbatim>\<open>app.py\<close>.  Every interaction of the user
  re-executes the script top to bottom against the session state.  The embedding
  follows the script: Python values are a datatype, every exception the script can meet
  is a value, the calls into Streamlit are recorded as a list of widgets, and the
  session state is passed explicitly.  The libraries the script calls but does not
  contain (the JSON parser, the JPEG codec of Pillow, the HTTP exchange, Python's
  \<^verbatim>\<open>repr\<close>) are fields of a record that every definition takes as a parameter.
\<close>

subsection \<open>Python values\<close>

text \<open>
  A Python \<^verbatim>\<open>float\<close> is an IEEE binary64 value.  A finite one is held by the rational
  it denotes (negative zero is identified with zero: the two compare equal in Python).
\<close>

datatype pyfloat = Finite rat | PosInf | NegInf | NaN

text \<open>
  What \<^verbatim>\<open>json.loads\<close> returns: \<^verbatim>\<open>None\<close>, \<^verbatim>\<open>bool\<close>, \<^verbatim>\<open>int\<close> (unbounded),
  \<^verbatim>\<open>float\<close>, \<^verbatim>\<open>str\<close>, \<^verbatim>\<open>list\<close> and \<^verbatim>\<open>dict\<close> with string keys.  A dict is an
  association list with distinct keys, in insertion order.  A string is its UTF-8
  byte sequence.
\<close>

datatype json =
    JNull
  | JBool bool
  | JInt int
  | JFloat pyfloat
  | JStr string
  | JArr "json list"
  | JObj "(string \<times> json) list"

text \<open>
  The exceptions the script can meet, each with the message \<^verbatim>\<open>str(e)\<close> shows
  (for \<^verbatim>\<open>KeyError\<close>: the key).  All of them derive from \<^verbatim>\<open>Exception\<close>.
\<close>

datatype exn =
    KeyError json
  | IndexError string
  | TypeError string
  | AttributeError string
  | ZeroDivisionError string
  | OverflowError string
  | ValueError string
  | JSONDecodeError string
  | HTTPError string
  | RequestException string
  | OSError string
  | FileNotFoundError string

text \<open>
  \<^verbatim>\<open>st.stop()\<close> ends the run by a control-flow exception that does not derive from
  \<^verbatim>\<open>Exception\<close>, so \<^verbatim>\<open>except Exception\<close> does not catch it.
\<close>

datatype signal = Raise exn | Stop

definition quoted :: "string \<Rightarrow> string" where
  "quoted s = [CHR 0x27] @ s @ [CHR 0x27]"

fun type_name :: "json \<Rightarrow> string" where
  "type_name JNull = ''NoneType''"
| "type_name (JBool _) = ''bool''"
| "type_name (JInt _) = ''int''"
| "type_name (JFloat _) = ''float''"
| "type_name (JStr _) = ''str''"
| "type_name (JArr _) = ''list''"
| "type_name (JObj _) = ''dict''"

text \<open>Truth value testing (\<^verbatim>\<open>if x:\<close>, \<^verbatim>\<open>not x\<close>).\<close>

fun truthy :: "json \<Rightarrow> bool" where
  "truthy JNull = False"
| "truthy (JBool b) = b"
| "truthy (JInt n) = (n \<noteq> 0)"
| "truthy (JFloat f) = (f \<noteq> Finite 0)"
| "truthy (JStr s) = (s \<noteq> [])"
| "truthy (JArr xs) = (xs \<noteq> [])"
| "truthy (JObj kvs) = (kvs \<noteq> [])"

text \<open>Decimal text of an \<^verbatim>\<open>int\<close>, as \<^verbatim>\<open>str\<close> and an f-string print it.\<close>

fun str_nat :: "nat \<Rightarrow> string" where
  "str_nat n =
     (if n < 10 then [''0123456789'' ! n]
      else str_nat (n div 10) @ [''0123456789'' ! (n mod 10)])"

definition str_int :: "int \<Rightarrow> string" where
  "str_int i = (if i < 0 then CHR ''-'' # str_nat (nat (- i)) else str_nat (nat i))"

text \<open>
  \<^verbatim>\<open>str(v)\<close>, which an f-string applies to each value it interpolates.  The text of a
  \<^verbatim>\<open>float\<close>, a \<^verbatim>\<open>list\<close> or a \<^verbatim>\<open>dict\<close> is Python's \<^verbatim>\<open>repr\<close>, the parameter \<open>R\<close>.
\<close>

fun py_str :: "(json \<Rightarrow> string) \<Rightarrow> json \<Rightarrow> string" where
  "py_str R (JStr s) = s"
| "py_str R (JInt n) = str_int n"
| "py_str R (JBool b) = (if b then ''True'' else ''False'')"
| "py_str R JNull = ''None''"
| "py_str R v = R v"

fun str_exn :: "(json \<Rightarrow> string) \<Rightarrow> exn \<Rightarrow> string" where
  "str_exn R (KeyError k) = R k"
| "str_exn R (IndexError m) = m"
| "str_exn R (TypeError m) = m"
| "str_exn R (AttributeError m) = m"
| "str_exn R (ZeroDivisionError m) = m"
| "str_exn R (OverflowError m) = m"
| "str_exn R (ValueError m) = m"
| "str_exn R (JSONDecodeError m) = m"
| "str_exn R (HTTPError m) = m"
| "str_exn R (RequestException m) = m"
| "str_exn R (OSError m) = m"
| "str_exn R (FileNotFoundError m) = m"

text \<open>The code points of a string: a UTF-8 lead byte with its continuation bytes.\<close>

definition is_continuation :: "char \<Rightarrow> bool" where
  "is_continuation c = (128 \<le> (of_char c :: nat) \<and> (of_char c :: nat) < 192)"

function utf8_chars :: "string \<Rightarrow> string list" where
  "utf8_chars [] = []"
| "utf8_chars (c # cs) =
     (c # takeWhile is_continuation cs) # utf8_chars (dropWhile is_continuation cs)"
  by pat_completeness auto
termination
  by (relation "measure length") (auto simp: length_dropWhile_le less_Suc_eq_le)

text \<open>Sequencing of evaluations that may raise.\<close>

definition bind :: "'x + 'a \<Rightarrow> ('a \<Rightarrow> 'x + 'b) \<Rightarrow> 'x + 'b" where
  "bind r k = (case r of Inr a \<Rightarrow> k a | Inl x \<Rightarrow> Inl x)"

text \<open>\<^verbatim>\<open>x[k]\<close> for a string key, \<^verbatim>\<open>x[i]\<close> for an integer index.\<close>

definition not_subscriptable :: "json \<Rightarrow> exn" where
  "not_subscriptable x = TypeError (quoted (type_name x) @ '' object is not subscriptable'')"

fun getitem :: "json \<Rightarrow> string \<Rightarrow> exn + json" where
  "getitem (JObj kvs) k =
     (case map_of kvs k of Some v \<Rightarrow> Inr v | None \<Rightarrow> Inl (KeyError (JStr k)))"
| "getitem (JArr xs) k = Inl (TypeError ''list indices must be integers or slices, not str'')"
| "getitem (JStr s) k =
     Inl (TypeError (''string indices must be integers, not '' @ quoted ''str''))"
| "getitem x k = Inl (not_subscriptable x)"

text \<open>
  The position that an index denotes in a sequence of \<open>n\<close> items: a negative index counts
  from the end, and an index outside \<open>-n .. n-1\<close> denotes none.
\<close>

fun position :: "nat \<Rightarrow> int \<Rightarrow> nat option" where
  "position n i =
     (if i < - int n \<or> int n \<le> i then None
      else Some (nat (if i < 0 then i + int n else i)))"

fun getindex :: "json \<Rightarrow> int \<Rightarrow> exn + json" where
  "getindex (JArr xs) i =
     (case position (length xs) i of
        Some p \<Rightarrow> Inr (xs ! p)
      | None \<Rightarrow> Inl (IndexError ''list index out of range''))"
| "getindex (JStr s) i =
     (case position (length (utf8_chars s)) i of
        Some p \<Rightarrow> Inr (JStr (utf8_chars s ! p))
      | None \<Rightarrow> Inl (IndexError ''string index out of range''))"
| "getindex (JObj kvs) i = Inl (KeyError (JInt i))"
| "getindex x i = Inl (not_subscriptable x)"

text \<open>\<^verbatim>\<open>d.get(k, default)\<close>: only a dict has the method.\<close>

fun dict_get :: "json \<Rightarrow> string \<Rightarrow> json \<Rightarrow> exn + json" where
  "dict_get (JObj kvs) k d = Inr (case map_of kvs k of Some v \<Rightarrow> v | None \<Rightarrow> d)"
| "dict_get x k d =
     Inl (AttributeError (quoted (type_name x) @ '' object has no attribute ''
            @ quoted ''get''))"

text \<open>\<^verbatim>\<open>[x] + ys\<close>: a list is concatenated to a list only.\<close>

fun list_concat :: "json list \<Rightarrow> json \<Rightarrow> exn + json list" where
  "list_concat xs (JArr ys) = Inr (xs @ ys)"
| "list_concat xs y =
     Inl (TypeError (''can only concatenate list (not '' @ [CHR 0x22] @ type_name y
            @ [CHR 0x22] @ '') to list''))"

text \<open>
  \<^verbatim>\<open>for x in v\<close>: the elements of a list, the code points of a string, the keys of a
  dict; anything else is not iterable.
\<close>

fun py_iter :: "json \<Rightarrow> exn + json list" where
  "py_iter (JArr xs) = Inr xs"
| "py_iter (JStr s) = Inr (map JStr (utf8_chars s))"
| "py_iter (JObj kvs) = Inr (map (\<lambda>kv. JStr (fst kv)) kvs)"
| "py_iter x = Inl (TypeError (quoted (type_name x) @ '' object is not iterable''))"

text \<open>
  A lookup in a dict literal whose keys are strings (\<^verbatim>\<open>risk_color[...]\<close>): a list or a
  dict is not hashable, every other key that is not present is a \<^verbatim>\<open>KeyError\<close>.
\<close>

fun hashable :: "json \<Rightarrow> bool" where
  "hashable (JArr _) = False"
| "hashable (JObj _) = False"
| "hashable _ = True"

definition lookup_literal :: "(string \<times> string) list \<Rightarrow> json \<Rightarrow> exn + string" where
  "lookup_literal table k =
     (if \<not> hashable k then Inl (TypeError (''unhashable type: '' @ quoted (type_name k)))
      else case k of
             JStr s \<Rightarrow> (case map_of table s of Some v \<Rightarrow> Inr v | None \<Rightarrow> Inl (KeyError k))
           | _ \<Rightarrow> Inl (KeyError k))"

subsection \<open>Python arithmetic on \<^verbatim>\<open>int\<close> and \<^verbatim>\<open>float\<close>\<close>

definition pow2 :: "int \<Rightarrow> rat" where
  "pow2 e = 2 powi e"

text \<open>Rounding to the nearest integer, a tie to the even one.\<close>

definition round_half_even :: "rat \<Rightarrow> int" where
  "round_half_even x =
     (let f = \<lfloor>x\<rfloor>; d = x - of_int f
      in if d < 1 / 2 then f
         else if 1 / 2 < d then f + 1
         else if even f then f else f + 1)"

text \<open>The binary exponent of a positive rational \<open>a\<close>: \<open>2 ^ e \<le> a < 2 ^ (e + 1)\<close>.\<close>

definition ilog2 :: "rat \<Rightarrow> int" where
  "ilog2 a =
     (let k = int (floorlog 2 (nat (fst (quotient_of a))))
            - int (floorlog 2 (nat (snd (quotient_of a))))
      in if pow2 k \<le> a then k else k - 1)"

text \<open>
  Rounding of a real number to binary64 (round to nearest, ties to even): 53 significant
  bits, subnormal below \<open>2 ^ - 1022\<close>.  A result of magnitude \<open>2 ^ 1024\<close> or more is an
  overflow, which each operation treats in its own way.
\<close>

definition round64 :: "rat \<Rightarrow> rat" where
  "round64 x =
     (if x = 0 then 0
      else let e = max (ilog2 \<bar>x\<bar>) (- 1022); q = pow2 (e - 52)
           in of_int (round_half_even (x / q)) * q)"

definition overflows :: "rat \<Rightarrow> bool" where
  "overflows r = (2 ^ 1024 \<le> \<bar>r\<bar>)"

definition is_binary64 :: "rat \<Rightarrow> bool" where
  "is_binary64 r = (round64 r = r \<and> \<not> overflows r)"

text \<open>\<^verbatim>\<open>float(n)\<close> for an \<^verbatim>\<open>int\<close>, with the error of CPython.\<close>

definition int_to_float :: "int \<Rightarrow> exn + pyfloat" where
  "int_to_float n =
     (let r = round64 (of_int n)
      in if overflows r then Inl (OverflowError ''int too large to convert to float'')
         else Inr (Finite r))"

text \<open>\<^verbatim>\<open>a / b\<close> on two \<^verbatim>\<open>int\<close>s: the correctly rounded quotient.\<close>

definition int_truediv :: "int \<Rightarrow> int \<Rightarrow> exn + pyfloat" where
  "int_truediv a b =
     (if b = 0 then Inl (ZeroDivisionError ''division by zero'')
      else let r = round64 (of_int a / of_int b)
           in if overflows r
              then Inl (OverflowError ''integer division result too large for a float'')
              else Inr (Finite r))"

text \<open>The result of a binary64 operation whose exact value is \<open>x\<close>.\<close>

definition finite_result :: "rat \<Rightarrow> pyfloat" where
  "finite_result x =
     (let r = round64 x
      in if overflows r then (if 0 < r then PosInf else NegInf) else Finite r)"

text \<open>
  IEEE division and multiplication.  Python raises on a zero divisor before dividing, so
  \<open>ieee_div\<close> is only reached with a divisor that is not zero.
\<close>

fun ieee_div :: "pyfloat \<Rightarrow> pyfloat \<Rightarrow> pyfloat" where
  "ieee_div NaN b = NaN"
| "ieee_div a NaN = NaN"
| "ieee_div (Finite x) (Finite y) = finite_result (x / y)"
| "ieee_div (Finite x) b = Finite 0"
| "ieee_div PosInf (Finite y) = (if 0 < y then PosInf else NegInf)"
| "ieee_div NegInf (Finite y) = (if 0 < y then NegInf else PosInf)"
| "ieee_div a b = NaN"

fun ieee_mul :: "pyfloat \<Rightarrow> pyfloat \<Rightarrow> pyfloat" where
  "ieee_mul NaN b = NaN"
| "ieee_mul a NaN = NaN"
| "ieee_mul (Finite x) (Finite y) = finite_result (x * y)"
| "ieee_mul (Finite x) PosInf = (if x = 0 then NaN else if 0 < x then PosInf else NegInf)"
| "ieee_mul (Finite x) NegInf = (if x = 0 then NaN else if 0 < x then NegInf else PosInf)"
| "ieee_mul PosInf (Finite y) = (if y = 0 then NaN else if 0 < y then PosInf else NegInf)"
| "ieee_mul NegInf (Finite y) = (if y = 0 then NaN else if 0 < y then NegInf else PosInf)"
| "ieee_mul PosInf PosInf = PosInf"
| "ieee_mul PosInf NegInf = NegInf"
| "ieee_mul NegInf PosInf = NegInf"
| "ieee_mul NegInf NegInf = PosInf"

definition float_div :: "pyfloat \<Rightarrow> pyfloat \<Rightarrow> exn + pyfloat" where
  "float_div a b =
     (if b = Finite 0 then Inl (ZeroDivisionError ''float division by zero'')
      else Inr (ieee_div a b))"

text \<open>\<^verbatim>\<open>a < b\<close> on floats: false whenever one of them is NaN.\<close>

fun float_less :: "pyfloat \<Rightarrow> pyfloat \<Rightarrow> bool" where
  "float_less NaN b = False"
| "float_less a NaN = False"
| "float_less (Finite x) (Finite y) = (x < y)"
| "float_less (Finite x) PosInf = True"
| "float_less (Finite x) NegInf = False"
| "float_less PosInf b = False"
| "float_less NegInf NegInf = False"
| "float_less NegInf b = True"

text \<open>\<^verbatim>\<open>min(a, b)\<close>: the first argument unless the second is smaller.\<close>

definition py_min :: "pyfloat \<Rightarrow> pyfloat \<Rightarrow> pyfloat" where
  "py_min a b = (if float_less b a then b else a)"

text \<open>\<^verbatim>\<open>round(x)\<close> of a float, with one argument: an \<^verbatim>\<open>int\<close>, ties to even.\<close>

fun py_round :: "pyfloat \<Rightarrow> exn + int" where
  "py_round (Finite r) = Inr (round_half_even r)"
| "py_round NaN = Inl (ValueError ''cannot convert float NaN to integer'')"
| "py_round f = Inl (OverflowError ''cannot convert float infinity to integer'')"

text \<open>
  \<^verbatim>\<open>a / b\<close> where \<open>b\<close> is an \<^verbatim>\<open>int\<close> (a daily goal) and \<open>a\<close> is any parsed value:
  \<^verbatim>\<open>bool\<close> is a subclass of \<^verbatim>\<open>int\<close>; a float divides by \<^verbatim>\<open>float(b)\<close>.
\<close>

fun py_truediv :: "json \<Rightarrow> int \<Rightarrow> exn + pyfloat" where
  "py_truediv (JInt a) b = int_truediv a b"
| "py_truediv (JBool t) b = int_truediv (if t then 1 else 0) b"
| "py_truediv (JFloat f) b = bind (int_to_float b) (float_div f)"
| "py_truediv a b =
     Inl (TypeError (''unsupported operand type(s) for /: '' @ quoted (type_name a)
            @ '' and '' @ quoted ''int''))"

text \<open>\<^verbatim>\<open>x * 100\<close> for a float \<open>x\<close>.\<close>

definition times_100 :: "pyfloat \<Rightarrow> pyfloat" where
  "times_100 x = ieee_mul x (Finite 100)"

subsection \<open>The libraries, and what the script shows\<close>

type_synonym byte = "8 word"

text \<open>A decoded image (\<^verbatim>\<open>PIL.Image.Image\<close>): its mode, its size and its pixel data.\<close>

record bitmap =
  mode :: string
  width :: nat
  height :: nat
  pixels :: "byte list"

record request =
  req_url :: string
  req_headers :: "(string \<times> string) list"
  req_json :: json
  req_timeout :: nat

record response =
  status_code :: nat
  reason :: string
  resp_url :: string
  resp_text :: string

text \<open>\<^verbatim>\<open>requests.post\<close> either raises (no connection, timeout) or returns a response.\<close>

datatype http_result = Failed exn | Responded response

text \<open>
  The library functions the script calls: \<^verbatim>\<open>repr\<close>; \<^verbatim>\<open>json.loads\<close> on a string
  (\<open>Inl\<close> the message of its \<^verbatim>\<open>JSONDecodeError\<close>); \<^verbatim>\<open>Image.save(buffer, format="JPEG")\<close>
  as the bytes left in the buffer; \<^verbatim>\<open>Image.open\<close> on the bytes of a file;
  \<^verbatim>\<open>requests.post\<close>.
\<close>

record libs =
  py_repr :: "json \<Rightarrow> string"
  json_loads :: "string \<Rightarrow> string + json"
  jpeg_save :: "bitmap \<Rightarrow> exn + byte list"
  image_open :: "byte list \<Rightarrow> exn + bitmap"
  http_post :: "request \<Rightarrow> http_result"

text \<open>The chart that \<^verbatim>\<open>create_donut_chart\<close> describes to Altair.\<close>

record dataframe =
  category_col :: "string list"
  value_col :: "json list"

datatype sort_order = Ascending | Descending

record color_scale =
  scale_domain :: "string list"
  scale_range :: "string list"

datatype color_channel = ByField string color_scale | Constant string

record chart_layer =
  mark_type :: string
  mark_radii :: "(string \<times> nat) list"
  theta_field :: string
  theta_stack :: bool
  color_by :: color_channel
  order_field :: string
  order_sort :: sort_order
  tooltip_fields :: "string list"
  text_field :: "string option"

record chart =
  chart_data :: dataframe
  chart_layers :: "chart_layer list"

text \<open>
  One constructor for each Streamlit call of the script, holding the arguments the script
  passes.  \<open>Within c ws\<close> is what a \<^verbatim>\<open>with c:\<close> block put into the container \<open>c\<close>.
\<close>

datatype widget =
    PageConfig string
  | Title string
  | Header string
  | Subheader string
  | Markdown string
  | Caption string
  | Divider
  | Info string
  | Write string
  | Warning string
  | Success string
  | ErrorBox string
  | Metric string string "string option"
  | Progress pyfloat
  | AltairChart chart
  | Image bitmap string
  | NumberInput string int
  | Radio string "string list"
  | CameraInput string
  | FileUploader string "string list"
  | Button string
  | StatusUpdate string string
  | Within string "widget list"

text \<open>
  A block of the script: the widgets it has shown, and how it ended (its value, or the
  exception or stop that left it).
\<close>

type_synonym 'a ui = "widget list \<times> (signal + 'a)"

definition ui_return :: "'a \<Rightarrow> 'a ui" where
  "ui_return a = ([], Inr a)"

definition emit :: "widget \<Rightarrow> unit ui" where
  "emit w = ([w], Inr ())"

definition lift :: "exn + 'a \<Rightarrow> 'a ui" where
  "lift m = ([], case m of Inl e \<Rightarrow> Inl (Raise e) | Inr a \<Rightarrow> Inr a)"

definition seq :: "'a ui \<Rightarrow> ('a \<Rightarrow> 'b ui) \<Rightarrow> 'b ui" where
  "seq m f =
     (case snd m of
        Inl sg \<Rightarrow> (fst m, Inl sg)
      | Inr a \<Rightarrow> (fst m @ fst (f a), snd (f a)))"

definition andthen :: "unit ui \<Rightarrow> 'b ui \<Rightarrow> 'b ui" where
  "andthen m k = seq m (\<lambda>_. k)"

definition inside :: "string \<Rightarrow> 'a ui \<Rightarrow> 'a ui" where
  "inside c m = ([Within c (fst m)], snd m)"

fun foreach :: "'a list \<Rightarrow> ('a \<Rightarrow> unit ui) \<Rightarrow> unit ui" where
  "foreach [] f = ui_return ()"
| "foreach (x # xs) f = andthen (f x) (foreach xs f)"

text \<open>\<^verbatim>\<open>try: m  except Exception as e: h e\<close>.\<close>

definition try_except :: "'a ui \<Rightarrow> (exn \<Rightarrow> 'a ui) \<Rightarrow> 'a ui" where
  "try_except m h =
     (case snd m of
        Inl (Raise e) \<Rightarrow> (fst m @ fst (h e), snd (h e))
      | _ \<Rightarrow> m)"

text \<open>The error messages shown anywhere on a page (\<^verbatim>\<open>st.error\<close>).\<close>

fun errors_shown :: "widget \<Rightarrow> string list" where
  "errors_shown (ErrorBox m) = [m]"
| "errors_shown (Within c ws) = concat (map errors_shown ws)"
| "errors_shown w = []"

subsection \<open>Configuration\<close>

text \<open>
  \<^verbatim>\<open>st.secrets\<close>: without a secrets file every access raises \<^verbatim>\<open>FileNotFoundError\<close>;
  with one, a key that the file does not hold raises \<^verbatim>\<open>KeyError\<close>.
\<close>

datatype secrets = NoSecretsFile | SecretsFile "(string \<times> string) list"

definition secrets_getitem :: "secrets \<Rightarrow> string \<Rightarrow> exn + string" where
  "secrets_getitem sec k =
     (case sec of
        NoSecretsFile \<Rightarrow> Inl (FileNotFoundError ''No secrets files found.'')
      | SecretsFile kvs \<Rightarrow>
          (case map_of kvs k of
             Some v \<Rightarrow> Inr v
           | None \<Rightarrow> Inl (KeyError (JStr (''st.secrets has no key '' @ [CHR 0x22] @ k
                                          @ [CHR 0x22])))))"

text \<open>
  Lines 19 to 23:
  \<^verbatim>\<open>try: API_KEY = st.secrets["GEMINI_API_KEY"]\<close>
  \<^verbatim>\<open>except FileNotFoundError: st.error(...); st.stop()\<close>.
  Only \<^verbatim>\<open>FileNotFoundError\<close> is handled.
\<close>

definition load_secrets :: "secrets \<Rightarrow> string ui" where
  "load_secrets sec =
     (case secrets_getitem sec ''GEMINI_API_KEY'' of
        Inr k \<Rightarrow> ui_return k
      | Inl (FileNotFoundError m) \<Rightarrow>
          seq (emit (ErrorBox
                 ''Secrets file not found. Please set up your .streamlit/secrets.toml''))
            (\<lambda>_. ([], Inl Stop))
      | Inl e \<Rightarrow> ([], Inl (Raise e)))"

definition MODEL_URL :: string where
  "MODEL_URL = ''https://generativelanguage.googleapis.com/v1beta/models/''
     @ ''gemini-2.5-flash-preview-09-2025:generateContent''"

subsection \<open>Session state\<close>

record daily_goal =
  calories :: int
  proteinG :: int
  carbsG :: int
  fatG :: int

text \<open>
  \<^verbatim>\<open>st.session_state\<close>: a key is absent (\<open>None\<close>) until the script sets it.  The
  Analysis Store is the key \<^verbatim>\<open>analysis\<close>; Python's \<^verbatim>\<open>None\<close> there is \<open>JNull\<close>.
\<close>

record session_state =
  stored_analysis :: "json option"
  stored_goal :: "daily_goal option"

record session =
  analysis :: json
  goals :: daily_goal

text \<open>Lines 59 to 68.\<close>

definition init_session :: "session_state \<Rightarrow> session" where
  "init_session st =
     \<lparr> analysis = (case stored_analysis st of None \<Rightarrow> JNull | Some a \<Rightarrow> a),
       goals = (case stored_goal st of
                  None \<Rightarrow> \<lparr> calories = 2000, proteinG = 120, carbsG = 250, fatG = 65 \<rparr>
                | Some g \<Rightarrow> g) \<rparr>"

definition save_session :: "session \<Rightarrow> session_state" where
  "save_session s = \<lparr> stored_analysis = Some (analysis s), stored_goal = Some (goals s) \<rparr>"

subsection \<open>Helpers (lines 71 to 143)\<close>

definition b64_alphabet :: string where
  "b64_alphabet = ''ABCDEFGHIJKLMNOPQRSTUVWXYZabcdefghijklmnopqrstuvwxyz0123456789+/''"

definition b64_char :: "nat \<Rightarrow> char" where
  "b64_char i = b64_alphabet ! i"

text \<open>
  \<^verbatim>\<open>base64.b64encode(bs).decode()\<close>: three bytes become four characters of the
  standard alphabet, the last group padded with \<^verbatim>\<open>=\<close>.
\<close>

fun b64encode :: "byte list \<Rightarrow> string" where
  "b64encode [] = []"
| "b64encode [a] =
     [b64_char (unat a div 4), b64_char (unat a mod 4 * 16), CHR ''='', CHR ''='']"
| "b64encode [a, b] =
     [b64_char (unat a div 4), b64_char (unat a mod 4 * 16 + unat b div 16),
      b64_char (unat b mod 16 * 4), CHR ''='']"
| "b64encode (a # b # c # bs) =
     [b64_char (unat a div 4), b64_char (unat a mod 4 * 16 + unat b div 16),
      b64_char (unat b mod 16 * 4 + unat c div 64), b64_char (unat c mod 64)]
     @ b64encode bs"

definition image_to_base64 :: "libs \<Rightarrow> bitmap \<Rightarrow> exn + string" where
  "image_to_base64 L img = bind (jpeg_save L img) (\<lambda>buffer. Inr (b64encode buffer))"

definition create_donut_chart :: "json \<Rightarrow> json \<Rightarrow> json \<Rightarrow> chart" where
  "create_donut_chart protein carbs fat =
     (let source = \<lparr> category_col = [''Protein'', ''Carbs'', ''Fat''],
                      value_col = [protein, carbs, fat] \<rparr>;
          pie = \<lparr> mark_type = ''arc'',
                  mark_radii = [(''outerRadius'', 100), (''innerRadius'', 60)],
                  theta_field = ''Value'', theta_stack = True,
                  color_by = ByField ''Category''
                    \<lparr> scale_domain = [''Protein'', ''Carbs'', ''Fat''],
                      scale_range = [''#36a2eb'', ''#ffcd56'', ''#ff6384''] \<rparr>,
                  order_field = ''Value'', order_sort = Descending,
                  tooltip_fields = [''Category'', ''Value''],
                  text_field = None \<rparr>;
          text_layer = \<lparr> mark_type = ''text'',
                  mark_radii = [(''radius'', 120)],
                  theta_field = ''Value'', theta_stack = True,
                  color_by = Constant ''black'',
                  order_field = ''Value'', order_sort = Descending,
                  tooltip_fields = [],
                  text_field = Some ''Value'' \<rparr>
      in \<lparr> chart_data = source, chart_layers = [pie, text_layer] \<rparr>)"

definition system_prompt :: string where
  "system_prompt = concat (map (\<lambda>l. l @ [CHR 0x0A])
     [[],
      ''    You are NutriSnap AI, an expert food analyst.'',
      ''    Analyze the image of the meal and return a JSON object STRICTLY following this schema:'',
      ''    {'',
      ''      \"foodName\": \"string\",'',
      ''      \"cuisineType\": \"string\",'',
      ''      \"calories\": number,'',
      ''      \"macronutrients\": { \"proteinG\": number, \"carbsG\": number, \"fatG\": number },'',
      ''      \"insightSummary\": \"string (short, engaging 1-sentence summary)\",'',
      ''      \"dietaryTags\": [\"string (e.g. Vegan, Keto, Gluten-Free, High-Protein)\"],'',
      ''      \"recipe\": {'',
      ''        \"title\": \"string\",'',
      ''        \"ingredients\": [\"string (with quantities)\"],'',
      ''        \"instructions\": [\"string\"]'',
      ''      },'',
      ''      \"allergenAlert\": {'',
      ''        \"riskLevel\": \"Low | Medium | High\",'',
      ''        \"detected\": [\"string\"],'',
      ''        \"advice\": \"string\"'',
      ''      }'',
      ''    }'']) @ ''    ''"

definition payload :: "string \<Rightarrow> json" where
  "payload image_b64 =
     JObj [(''contents'', JArr [JObj
              [(''role'', JStr ''user''),
               (''parts'', JArr
                  [JObj [(''text'', JStr
                     ''Analyze this food photo and return structured nutrition data.'')],
                   JObj [(''inlineData'', JObj [(''mimeType'', JStr ''image/jpeg''),
                                                (''data'', JStr image_b64)])]])]]),
           (''systemInstruction'', JObj [(''parts'', JArr [JObj [(''text'', JStr system_prompt)]])]),
           (''generationConfig'', JObj [(''responseMimeType'', JStr ''application/json'')])]"

text \<open>
  \<^verbatim>\<open>Response.raise_for_status\<close> of requests: an \<^verbatim>\<open>HTTPError\<close> for a status from 400 to
  599, whose message starts with the status code.
\<close>

definition raise_for_status :: "response \<Rightarrow> exn + unit" where
  "raise_for_status r =
     (if 400 \<le> status_code r \<and> status_code r < 500
      then Inl (HTTPError (str_nat (status_code r) @ '' Client Error: '' @ reason r
                  @ '' for url: '' @ resp_url r))
      else if 500 \<le> status_code r \<and> status_code r < 600
      then Inl (HTTPError (str_nat (status_code r) @ '' Server Error: '' @ reason r
                  @ '' for url: '' @ resp_url r))
      else Inr ())"

text \<open>\<^verbatim>\<open>response.json()\<close>, and \<^verbatim>\<open>json.loads(v)\<close> on a value \<open>v\<close> of the envelope.\<close>

definition response_json :: "libs \<Rightarrow> response \<Rightarrow> exn + json" where
  "response_json L r =
     (case json_loads L (resp_text r) of Inl m \<Rightarrow> Inl (JSONDecodeError m) | Inr j \<Rightarrow> Inr j)"

fun loads :: "libs \<Rightarrow> json \<Rightarrow> exn + json" where
  "loads L (JStr s) =
     (case json_loads L s of Inl m \<Rightarrow> Inl (JSONDecodeError m) | Inr j \<Rightarrow> Inr j)"
| "loads L v =
     Inl (TypeError (''the JSON object must be str, bytes or bytearray, not '' @ type_name v))"

text \<open>
  The path \<^verbatim>\<open>["candidates"][0]["content"]["parts"][0]["text"]\<close> into the envelope.
\<close>

definition embedded_text :: "json \<Rightarrow> exn + json" where
  "embedded_text envelope =
     bind (getitem envelope ''candidates'') (\<lambda>cs.
     bind (getindex cs 0) (\<lambda>c.
     bind (getitem c ''content'') (\<lambda>content.
     bind (getitem content ''parts'') (\<lambda>parts.
     bind (getindex parts 0) (\<lambda>part.
     getitem part ''text'')))))"

definition gemini_request :: "string \<Rightarrow> string \<Rightarrow> request" where
  "gemini_request api_key image_b64 =
     \<lparr> req_url = MODEL_URL @ ''?key='' @ api_key,
       req_headers = [(''Content-Type'', ''application/json'')],
       req_json = payload image_b64,
       req_timeout = 60 \<rparr>"

definition call_gemini :: "libs \<Rightarrow> string \<Rightarrow> string \<Rightarrow> exn + json" where
  "call_gemini L api_key image_b64 =
     (case http_post L (gemini_request api_key image_b64) of
        Failed e \<Rightarrow> Inl e
      | Responded r \<Rightarrow>
          bind (raise_for_status r) (\<lambda>_.
          bind (response_json L r) (\<lambda>envelope.
          bind (embedded_text envelope) (\<lambda>t.
          loads L t))))"

subsection \<open>Texts of the page\<close>

text \<open>The emoji of the labels, as their UTF-8 bytes.\<close>

definition emoji_plate :: string where
  "emoji_plate = [CHR 0xF0, CHR 0x9F, CHR 0x8D, CHR 0xBD, CHR 0xEF, CHR 0xB8, CHR 0x8F]"

definition emoji_gear :: string where
  "emoji_gear = [CHR 0xE2, CHR 0x9A, CHR 0x99, CHR 0xEF, CHR 0xB8, CHR 0x8F]"

definition emoji_target :: string where
  "emoji_target = [CHR 0xF0, CHR 0x9F, CHR 0x8E, CHR 0xAF]"

definition emoji_bulb :: string where
  "emoji_bulb = [CHR 0xF0, CHR 0x9F, CHR 0x92, CHR 0xA1]"

definition emoji_camera :: string where
  "emoji_camera = [CHR 0xF0, CHR 0x9F, CHR 0x93, CHR 0xB8]"

definition emoji_bolt :: string where
  "emoji_bolt = [CHR 0xE2, CHR 0x9A, CHR 0xA1]"

definition emoji_lens :: string where
  "emoji_lens = [CHR 0xF0, CHR 0x9F, CHR 0x94, CHR 0x8D]"

definition emoji_point_left :: string where
  "emoji_point_left = [CHR 0xF0, CHR 0x9F, CHR 0x91, CHR 0x88]"

definition emoji_memo :: string where
  "emoji_memo = [CHR 0xF0, CHR 0x9F, CHR 0x93, CHR 0x9D]"

definition emoji_chart :: string where
  "emoji_chart = [CHR 0xF0, CHR 0x9F, CHR 0x93, CHR 0x8A]"

definition emoji_cook :: string where
  "emoji_cook = [CHR 0xF0, CHR 0x9F, CHR 0x91, CHR 0xA8, CHR 0xE2, CHR 0x80, CHR 0x8D,
                 CHR 0xF0, CHR 0x9F, CHR 0x8D, CHR 0xB3]"

definition emoji_warning :: string where
  "emoji_warning = [CHR 0xE2, CHR 0x9A, CHR 0xA0, CHR 0xEF, CHR 0xB8, CHR 0x8F]"

definition emoji_cart :: string where
  "emoji_cart = [CHR 0xF0, CHR 0x9F, CHR 0x9B, CHR 0x92]"

definition emoji_pan :: string where
  "emoji_pan = [CHR 0xF0, CHR 0x9F, CHR 0x8D, CHR 0xB3]"

definition emoji_red_circle :: string where
  "emoji_red_circle = [CHR 0xF0, CHR 0x9F, CHR 0x94, CHR 0xB4]"

definition lines :: "string list \<Rightarrow> string" where
  "lines ls = concat (map (\<lambda>l. l @ [CHR 0x0A]) ls)"

definition custom_css :: string where
  "custom_css = lines
     [[],
      ''<style>'',
      ''    .main {'',
      ''        background-color: #f8f9fa;'',
      ''    }'',
      ''    .stButton>button {'',
      ''        width: 100%;'',
      ''        border-radius: 8px;'',
      ''        height: 3em;'',
      ''        background-color: #FF4B4B; '',
      ''        color: white;'',
      ''        font-weight: bold;'',
      ''    }'',
      ''    .metric-card {'',
      ''        background-color: #ffffff;'',
      ''        border: 1px solid #e0e0e0;'',
      ''        border-radius: 10px;'',
      ''        padding: 15px;'',
      ''        box-shadow: 0 2px 4px rgba(0,0,0,0.05);'',
      ''        text-align: center;'',
      ''    }'',
      ''    h1 {'',
      ''        color: #1f1f1f; '',
      ''    }'',
      ''</style>'']"

definition placeholder_html :: string where
  "placeholder_html = lines
     [[],
      ''            <div style=\"text-align: center; padding: 50px; background: #f0f2f6; border-radius: 10px; color: #666;\">'',
      ''                <h3>'' @ emoji_point_left @ '' Snap a photo to begin</h3>'',
      ''                <p>AI will identify ingredients, calculate macros, and generate a recipe.</p>'',
      ''            </div>''] @ ''            ''"

text \<open>\<^verbatim>\<open>sep.join(xs)\<close>.\<close>

fun join :: "string \<Rightarrow> string list \<Rightarrow> string" where
  "join sep [] = []"
| "join sep [x] = x"
| "join sep (x # y # ys) = x @ sep @ join sep (y # ys)"

subsection \<open>What the user did before this run\<close>

datatype input_method = Camera | Upload

text \<open>
  The state of the input widgets: what the user typed into each goal field (\<open>None\<close>: the
  field still shows its default), the chosen image source, the photo taken or the file
  uploaded (its bytes), and whether this run was started by the Decode button.
\<close>

record interaction =
  entered_calories :: "int option"
  entered_protein :: "int option"
  entered_carbs :: "int option"
  entered_fat :: "int option"
  input_choice :: input_method
  camera_photo :: "byte list option"
  uploaded_file :: "byte list option"
  decode_clicked :: bool

subsection \<open>Sidebar (lines 146 to 156)\<close>

text \<open>
  \<^verbatim>\<open>st.number_input(label, value=v)\<close> with an \<^verbatim>\<open>int\<close> default returns an \<^verbatim>\<open>int\<close>:
  the default, or what the user entered.  No minimum is given, so every \<^verbatim>\<open>int\<close> can
  be entered, zero and negative ones too.
\<close>

definition number_input :: "string \<Rightarrow> int \<Rightarrow> int option \<Rightarrow> int ui" where
  "number_input label v entered =
     seq (emit (NumberInput label v))
       (\<lambda>_. ui_return (case entered of None \<Rightarrow> v | Some n \<Rightarrow> n))"

definition sidebar :: "interaction \<Rightarrow> session \<Rightarrow> session ui" where
  "sidebar ia s =
     inside ''sidebar''
       (andthen (emit (Header (emoji_gear @ '' Profile & Goals'')))
       (andthen (emit (Markdown
          ''Set your daily nutritional targets to see how this meal fits in.''))
       (seq (inside (''expander: '' @ emoji_target @ '' Edit Daily Goals'')
          (seq (number_input ''Calories (kcal)'' (calories (goals s)) (entered_calories ia)) (\<lambda>c.
           seq (number_input ''Protein (g)'' (proteinG (goals s)) (entered_protein ia)) (\<lambda>p.
           seq (number_input ''Carbs (g)'' (carbsG (goals s)) (entered_carbs ia)) (\<lambda>cb.
           seq (number_input ''Fat (g)'' (fatG (goals s)) (entered_fat ia)) (\<lambda>f.
           ui_return \<lparr> calories = c, proteinG = p, carbsG = cb, fatG = f \<rparr>))))))
       (\<lambda>g.
        andthen (emit (Info (emoji_bulb
           @ '' **Tip:** Clear photos with good lighting give the best accuracy.'')))
          (ui_return (s\<lparr> goals := g \<rparr>))))))"

subsection \<open>Left panel: input and analysis (lines 165 to 192)\<close>

definition acquire_image :: "libs \<Rightarrow> interaction \<Rightarrow> bitmap option ui" where
  "acquire_image L ia =
     andthen (emit (Radio ''Input method'' [''Camera'', ''Upload'']))
       (case input_choice ia of
          Camera \<Rightarrow>
            andthen (emit (CameraInput ''Take a photo''))
              (case camera_photo ia of
                 None \<Rightarrow> ui_return None
               | Some f \<Rightarrow> seq (lift (image_open L f)) (\<lambda>i. ui_return (Some i)))
        | Upload \<Rightarrow>
            andthen (emit (FileUploader ''Upload image'' [''jpg'', ''jpeg'', ''png'']))
              (case uploaded_file ia of
                 None \<Rightarrow> ui_return None
               | Some f \<Rightarrow> seq (lift (image_open L f)) (\<lambda>i. ui_return (Some i))))"

text \<open>
  The handler of the Decode button (lines 183 to 192).  The Analysis Store is assigned
  only when \<^verbatim>\<open>call_gemini\<close> has returned; every exception of the \<^verbatim>\<open>try\<close> block is
  caught and shown by \<^verbatim>\<open>st.error(f"Error: {e}")\<close>.
\<close>

definition decode_nutrition :: "libs \<Rightarrow> string \<Rightarrow> bitmap \<Rightarrow> session \<Rightarrow> session ui" where
  "decode_nutrition L api_key img s =
     inside (''status: '' @ emoji_lens @ '' Analyzing food matrix...'')
       (try_except
          (andthen (emit (Write ''Encoding image...''))
          (seq (lift (image_to_base64 L img)) (\<lambda>img_b64.
           andthen (emit (Write ''Consulting AI Chef...''))
          (seq (lift (call_gemini L api_key img_b64)) (\<lambda>result.
           andthen (emit (StatusUpdate ''Analysis Complete!'' ''complete''))
             (ui_return (s\<lparr> analysis := result \<rparr>)))))))
          (\<lambda>e.
             andthen (emit (StatusUpdate ''Analysis Failed'' ''error''))
            (andthen (emit (ErrorBox (''Error: '' @ str_exn (py_repr L) e)))
               (ui_return s))))"

definition left_panel :: "libs \<Rightarrow> string \<Rightarrow> interaction \<Rightarrow> session \<Rightarrow> session ui" where
  "left_panel L api_key ia s =
     inside ''col1''
       (andthen (emit (Markdown (''#### '' @ emoji_camera @ '' Snap Your Meal'')))
       (seq (acquire_image L ia) (\<lambda>picture.
          case picture of
            None \<Rightarrow> ui_return s
          | Some img \<Rightarrow>
              andthen (emit (Image img ''Ready for analysis''))
             (andthen (emit (Button (emoji_bolt @ '' Decode Nutrition'')))
                (if decode_clicked ia then decode_nutrition L api_key img s
                 else ui_return s)))))"

subsection \<open>Right panel: presentation (lines 195 to 290)\<close>

text \<open>Lines 214 and 215: the cuisine and the dietary tags as badges.\<close>

definition badges :: "libs \<Rightarrow> json \<Rightarrow> unit ui" where
  "badges L data =
     seq (lift (bind (getitem data ''cuisineType'') (\<lambda>c.
                bind (dict_get data ''dietaryTags'' (JArr [])) (\<lambda>d.
                list_concat [c] d))))
       (\<lambda>tags. emit (Markdown
          (join '' '' (map (\<lambda>tag. [CHR 0x60] @ py_str (py_repr L) tag @ [CHR 0x60]) tags))))"

text \<open>
  Line 229:
  \<^verbatim>\<open>st.metric("Energy", f"{data['calories']} kcal",\<close>
  \<^verbatim>\<open>  f"{round((data['calories']/goals['calories'])*100)}% of Daily Goal")\<close>.
\<close>

definition percent_of_goal :: "json \<Rightarrow> int \<Rightarrow> exn + int" where
  "percent_of_goal v goal = bind (py_truediv v goal) (\<lambda>q. py_round (times_100 q))"

definition energy_metric :: "libs \<Rightarrow> json \<Rightarrow> daily_goal \<Rightarrow> unit ui" where
  "energy_metric L data g =
     seq (lift (getitem data ''calories'')) (\<lambda>shown.
     seq (lift (bind (getitem data ''calories'') (\<lambda>c. percent_of_goal c (calories g)))) (\<lambda>p.
     emit (Metric ''Energy'' (py_str (py_repr L) shown @ '' kcal'')
             (Some (str_int p @ ''% of Daily Goal'')))))"

text \<open>
  Lines 241 to 243 (and 245 to 247, 249 to 251): one macro card,
  \<^verbatim>\<open>st.metric(label, f"{macros[key]}g", border=True)\<close> and
  \<^verbatim>\<open>st.progress(min(macros[key] / goals[key], 1.0))\<close>.
\<close>

definition progress_value :: "json \<Rightarrow> int \<Rightarrow> exn + pyfloat" where
  "progress_value v goal = bind (py_truediv v goal) (\<lambda>q. Inr (py_min q (Finite 1)))"

definition macro_card :: "libs \<Rightarrow> string \<Rightarrow> string \<Rightarrow> json \<Rightarrow> int \<Rightarrow> unit ui" where
  "macro_card L label key macros goal =
     inside ''container''
       (seq (lift (getitem macros key)) (\<lambda>shown.
        andthen (emit (Metric label (py_str (py_repr L) shown @ ''g'') None))
       (seq (lift (bind (getitem macros key) (\<lambda>v. progress_value v goal))) (\<lambda>p.
        emit (Progress p)))))"

definition tab_nutrition :: "libs \<Rightarrow> json \<Rightarrow> daily_goal \<Rightarrow> unit ui" where
  "tab_nutrition L data g =
     andthen (inside ''c1'' (energy_metric L data g))
    (seq (inside ''c2''
            (seq (lift (getitem data ''macronutrients'')) (\<lambda>macros.
             seq (lift (bind (getitem macros ''proteinG'') (\<lambda>p.
                        bind (getitem macros ''carbsG'') (\<lambda>c.
                        bind (getitem macros ''fatG'') (\<lambda>f.
                        Inr (create_donut_chart p c f)))))) (\<lambda>ch.
             andthen (emit (AltairChart ch)) (ui_return macros))))) (\<lambda>macros.
     andthen (emit (Markdown ''#### Macro Breakdown''))
    (andthen (inside ''mc1'' (macro_card L ''Protein'' ''proteinG'' macros (proteinG g)))
    (andthen (inside ''mc2'' (macro_card L ''Carbs'' ''carbsG'' macros (carbsG g)))
             (inside ''mc3'' (macro_card L ''Fat'' ''fatG'' macros (fatG g)))))))"

definition tab_recipe :: "libs \<Rightarrow> json \<Rightarrow> unit ui" where
  "tab_recipe L data =
     seq (lift (getitem data ''recipe'')) (\<lambda>recipe.
     seq (lift (getitem recipe ''title'')) (\<lambda>title.
     andthen (emit (Subheader (py_str (py_repr L) title)))
    (andthen (inside ''col_ing''
       (andthen (emit (Markdown (''**'' @ emoji_cart @ '' Ingredients**'')))
          (seq (lift (bind (getitem recipe ''ingredients'') py_iter)) (\<lambda>ings.
           foreach ings (\<lambda>ing. emit (Markdown (''- '' @ py_str (py_repr L) ing)))))))
       (inside ''col_inst''
       (andthen (emit (Markdown (''**'' @ emoji_pan @ '' Instructions**'')))
          (seq (lift (bind (getitem recipe ''instructions'') py_iter)) (\<lambda>steps.
           foreach (enumerate 1 steps) (\<lambda>(idx, step).
             emit (Markdown (''**'' @ str_nat idx @ ''.** '' @ py_str (py_repr L) step))))))))))"

definition risk_color :: "(string \<times> string) list" where
  "risk_color = [(''High'', ''red''), (''Medium'', ''orange''), (''Low'', ''green'')]"

definition tab_alerts :: "libs \<Rightarrow> json \<Rightarrow> unit ui" where
  "tab_alerts L data =
     seq (lift (getitem data ''allergenAlert'')) (\<lambda>alert.
     seq (lift (bind (getitem alert ''riskLevel'') (\<lambda>level.
                bind (lookup_literal risk_color level) (\<lambda>color.
                bind (getitem alert ''riskLevel'') (\<lambda>shown.
                Inr (''**Risk Level:** :'' @ color @ ''['' @ py_str (py_repr L) shown
                       @ '']'')))))) (\<lambda>line.
     andthen (emit (Markdown line))
    (andthen (seq (lift (getitem alert ''riskLevel'')) (\<lambda>level.
                seq (lift (getitem alert ''advice'')) (\<lambda>advice.
                if level \<noteq> JStr ''Low'' then emit (Warning (py_str (py_repr L) advice))
                else emit (Success (py_str (py_repr L) advice)))))
       (seq (lift (getitem alert ''detected'')) (\<lambda>detected.
          if truthy detected
          then andthen (emit (Write ''Potential Allergens Detected:''))
                 (seq (lift (bind (getitem alert ''detected'') py_iter)) (\<lambda>items.
                  foreach items (\<lambda>item. emit (Markdown
                    (''- '' @ emoji_red_circle @ '' **'' @ py_str (py_repr L) item @ ''**'')))))
          else ui_return ())))))"

text \<open>Lines 211 to 219: name, badges, summary.\<close>

definition panel_header :: "libs \<Rightarrow> json \<Rightarrow> unit ui" where
  "panel_header L data =
     seq (lift (getitem data ''foodName'')) (\<lambda>name.
     andthen (emit (Markdown (''## '' @ py_str (py_repr L) name)))
    (andthen (badges L data)
    (seq (lift (getitem data ''insightSummary'')) (\<lambda>insight.
     andthen (emit (Caption (emoji_memo @ '' '' @ py_str (py_repr L) insight)))
       (emit Divider)))))"

text \<open>
  No \<^verbatim>\<open>try\<close> surrounds any of this: an exception raised here leaves the script.
\<close>

definition right_panel :: "libs \<Rightarrow> session \<Rightarrow> unit ui" where
  "right_panel L s =
     inside ''col2''
       (if \<not> truthy (analysis s) then emit (Markdown placeholder_html)
        else
          andthen (panel_header L (analysis s))
         (andthen (inside (''tab: '' @ emoji_chart @ '' Nutrition'')
                     (tab_nutrition L (analysis s) (goals s)))
         (andthen (inside (''tab: '' @ emoji_cook @ '' Recipe'') (tab_recipe L (analysis s)))
                  (inside (''tab: '' @ emoji_warning @ '' Health & Safety'')
                     (tab_alerts L (analysis s))))))"

subsection \<open>One run of the script\<close>

datatype outcome = Completed | Stopped | Uncaught exn

fun outcome_of :: "signal \<Rightarrow> outcome" where
  "outcome_of Stop = Stopped"
| "outcome_of (Raise e) = Uncaught e"

record run =
  page :: "widget list"
  outcome :: outcome
  state_after :: session_state

definition run_script :: "libs \<Rightarrow> secrets \<Rightarrow> interaction \<Rightarrow> session_state \<Rightarrow> run" where
  "run_script L sec ia st =
     (let p0 = andthen (emit (PageConfig ''NutriSnap AI'')) (load_secrets sec)
      in case snd p0 of
           Inl sg \<Rightarrow> \<lparr> page = fst p0, outcome = outcome_of sg, state_after = st \<rparr>
         | Inr api_key \<Rightarrow>
             (let s1 = init_session st;
                  p1 = andthen (emit (Markdown custom_css)) (sidebar ia s1);
                  s2 = (case snd p1 of Inr s \<Rightarrow> s | Inl _ \<Rightarrow> s1);
                  p2 = andthen (emit (Title (emoji_plate @ '' NutriSnap AI'')))
                      (andthen (emit (Markdown ''### Instant Meal Decoding & Nutrition Analysis''))
                         (left_panel L api_key ia s2));
                  s3 = (case snd p2 of Inr s \<Rightarrow> s | Inl _ \<Rightarrow> s2);
                  p3 = seq p1 (\<lambda>_. seq p2 (\<lambda>_. right_panel L s3))
              in \<lparr> page = fst p0 @ fst p3,
                   outcome = (case snd p3 of Inl sg \<Rightarrow> outcome_of sg | Inr _ \<Rightarrow> Completed),
                   state_after = save_session s3 \<rparr>))"

subsection \<open>The specification's words, and observations on a page\<close>

text \<open>The severity-to-color mapping as the specification lists it.\<close>

definition spec_risk_color :: "string \<Rightarrow> string" where
  "spec_risk_color level =
     (if level = ''High'' then ''red''
      else if level = ''Medium'' then ''orange''
      else ''green'')"

text \<open>Every message that \<^verbatim>\<open>st.error\<close> put on a page, at any depth.\<close>

definition shown_errors :: "widget list \<Rightarrow> string list" where
  "shown_errors ws = concat (map errors_shown ws)"

text \<open>The delta line of a metric (\<^verbatim>\<open>st.metric(label, value, delta)\<close>), if it has one.\<close>

fun metric_delta :: "widget \<Rightarrow> string option" where
  "metric_delta (Metric label shown delta) = delta"
| "metric_delta w = None"


text \<open>An analysis as the schema of the system prompt describes it, for examples.\<close>

definition sample_analysis :: json where
  "sample_analysis =
     JObj [(''foodName'', JStr ''Pad Thai''),
           (''cuisineType'', JStr ''Thai''),
           (''calories'', JInt 600),
           (''macronutrients'', JObj [(''proteinG'', JInt 150), (''carbsG'', JFloat (Finite (125 / 2))),
                                      (''fatG'', JInt 20)]),
           (''insightSummary'', JStr ''A balanced noodle dish.''),
           (''dietaryTags'', JArr []),
           (''recipe'', JObj [(''title'', JStr ''Quick Pad Thai''),
                              (''ingredients'', JArr [JStr ''200 g rice noodles'', JStr ''2 eggs'']),
                              (''instructions'', JArr [JStr ''Soak the noodles.'', JStr ''Stir-fry.''])]),
           (''allergenAlert'', JObj [(''riskLevel'', JStr ''Medium''),
                                     (''detected'', JArr [JStr ''peanuts'']),
                                     (''advice'', JStr ''Avoid'')])]"

definition default_goal :: daily_goal where
  "default_goal = \<lparr> calories = 2000, proteinG = 120, carbsG = 250, fatG = 65 \<rparr>"

text \<open>A user who has touched nothing, and one who has only typed goals.\<close>

definition idle :: interaction where
  "idle = \<lparr> entered_calories = None, entered_protein = None, entered_carbs = None,
            entered_fat = None, input_choice = Camera, camera_photo = None,
            uploaded_file = None, decode_clicked = False \<rparr>"

subsection \<open>Auxiliary notions of the proofs\<close>

text \<open>The spacing of the binary64 numbers in the binade of \<open>x\<close>.\<close>

definition quantum :: "rat \<Rightarrow> rat" where
  "quantum x = pow2 (max (ilog2 \<bar>x\<bar>) (- 1022) - 52)"

text \<open>
  A block that shows no \<^verbatim>\<open>st.error\<close> and does not stop the script: whatever leaves it
  is a value or an exception.
\<close>

definition calm :: "'a ui \<Rightarrow> bool" where
  "calm m = (shown_errors (fst m) = [] \<and> snd m \<noteq> Inl Stop)"

text \<open>Python's \<^verbatim>\<open>value > goal\<close> for a parsed number and an \<^verbatim>\<open>int\<close>.\<close>

fun exceeds :: "json \<Rightarrow> int \<Rightarrow> bool" where
  "exceeds (JInt a) g = (g < a)"
| "exceeds (JBool b) g = (g < (if b then 1 else 0))"
| "exceeds (JFloat (Finite x)) g = (of_int g < x)"
| "exceeds (JFloat PosInf) g = True"
| "exceeds v g = False"

text \<open>
  The numbers a macro value can be: an \<^verbatim>\<open>int\<close> within the range of a float (\<^verbatim>\<open>bool\<close>
  included), or a float that is not NaN.
\<close>

fun float_ranged :: "json \<Rightarrow> bool" where
  "float_ranged (JInt a) = (\<bar>a\<bar> \<le> 2 ^ 1023)"
| "float_ranged (JBool b) = True"
| "float_ranged (JFloat (Finite x)) = is_binary64 x"
| "float_ranged (JFloat PosInf) = True"
| "float_ranged (JFloat NegInf) = True"
| "float_ranged v = False"



text \<open>
  The specification's formula \<^verbatim>\<open>round(value / goal * 100)\<close> for a finite number and an
  integer goal, in Python's arithmetic: the quotient of two integers is rounded once to
  binary64; a float is divided by the goal converted to a float; the product with 100 is
  rounded to binary64; \<^verbatim>\<open>round\<close> takes the nearest integer, a tie to the even one.
\<close>

fun spec_ratio :: "json \<Rightarrow> int \<Rightarrow> rat" where
  "spec_ratio (JInt c) goal = round64 (of_int c / of_int goal)"
| "spec_ratio (JBool b) goal = round64 ((if b then 1 else 0) / of_int goal)"
| "spec_ratio (JFloat (Finite x)) goal = round64 (x / round64 (of_int goal))"
| "spec_ratio v goal = 0"

definition spec_percentage :: "json \<Rightarrow> int \<Rightarrow> int" where
  "spec_percentage v goal = round_half_even (round64 (spec_ratio v goal * 100))"


text \<open>What the four goal fields of the sidebar hold after the user's entries.\<close>

definition entered_goals :: "interaction \<Rightarrow> daily_goal \<Rightarrow> daily_goal" where
  "entered_goals ia g =
     \<lparr> calories = (case entered_calories ia of None \<Rightarrow> calories g | Some n \<Rightarrow> n),
       proteinG = (case entered_protein ia of None \<Rightarrow> proteinG g | Some n \<Rightarrow> n),
       carbsG = (case entered_carbs ia of None \<Rightarrow> carbsG g | Some n \<Rightarrow> n),
       fatG = (case entered_fat ia of None \<Rightarrow> fatG g | Some n \<Rightarrow> n) \<rparr>"

text \<open>A session that holds the sample analysis and has not set its goals yet.\<close>

definition sample_state :: session_state where
  "sample_state = \<lparr> stored_analysis = Some sample_analysis, stored_goal = None \<rparr>"

text \<open>The session when the sidebar has run: the stored one, with the entered goals.\<close>

definition after_sidebar :: "interaction \<Rightarrow> session_state \<Rightarrow> session" where
  "after_sidebar ia st =
     (init_session st)\<lparr>goals := entered_goals ia (goals (init_session st))\<rparr>"






definition example_secrets :: secrets where
  "example_secrets = SecretsFile [(''GEMINI_API_KEY'', ''K'')]"

text \<open>
  The sample analysis with a risk level that the schema does not list, and the sample
  analysis without the key \<^verbatim>\<open>dietaryTags\<close>.
\<close>

definition severe_analysis :: json where
  "severe_analysis =
     JObj [(''foodName'', JStr ''Pad Thai''),
           (''cuisineType'', JStr ''Thai''),
           (''calories'', JInt 600),
           (''macronutrients'', JObj [(''proteinG'', JInt 150), (''carbsG'', JFloat (Finite (125 / 2))),
                                      (''fatG'', JInt 20)]),
           (''insightSummary'', JStr ''A balanced noodle dish.''),
           (''dietaryTags'', JArr []),
           (''recipe'', JObj [(''title'', JStr ''Quick Pad Thai''),
                              (''ingredients'', JArr [JStr ''200 g rice noodles'', JStr ''2 eggs'']),
                              (''instructions'', JArr [JStr ''Soak the noodles.'', JStr ''Stir-fry.''])]),
           (''allergenAlert'', JObj [(''riskLevel'', JStr ''Severe''),
                                     (''detected'', JArr [JStr ''peanuts'']),
                                     (''advice'', JStr ''Avoid'')])]"

definition untagged_fields :: "(string \<times> json) list" where
  "untagged_fields =
          [(''foodName'', JStr ''Pad Thai''),
           (''cuisineType'', JStr ''Thai''),
           (''calories'', JInt 600),
           (''macronutrients'', JObj [(''proteinG'', JInt 150), (''carbsG'', JFloat (Finite (125 / 2))),
                                      (''fatG'', JInt 20)]),
           (''insightSummary'', JStr ''A balanced noodle dish.''),
           (''recipe'', JObj [(''title'', JStr ''Quick Pad Thai''),
                              (''ingredients'', JArr [JStr ''200 g rice noodles'', JStr ''2 eggs'']),
                              (''instructions'', JArr [JStr ''Soak the noodles.'', JStr ''Stir-fry.''])]),
           (''allergenAlert'', JObj [(''riskLevel'', JStr ''Medium''),
                                     (''detected'', JArr [JStr ''peanuts'']),
                                     (''advice'', JStr ''Avoid'')])]"

definition untagged_analysis :: json where
  "untagged_analysis = JObj untagged_fields"





section \<open>Verification\<close>

subsection \<open>Sequencing\<close>

lemma bind_Inr [simp]: "bind (Inr a) f = f a"
  by (simp add: bind_def)

lemma bind_Inl [simp]: "bind (Inl e) f = Inl e"
  by (simp add: bind_def)

lemma seq_lift_Inr [simp]: "seq (lift (Inr a)) f = f a"
  by (simp add: seq_def lift_def)

lemma seq_lift_Inl [simp]: "seq (lift (Inl e)) f = ([], Inl (Raise e))"
  by (simp add: seq_def lift_def)

lemma seq_return [simp]: "seq (ui_return a) f = f a"
  by (simp add: seq_def ui_return_def)

lemma andthen_emit [simp]: "andthen (emit w) k = (w # fst k, snd k)"
  by (simp add: andthen_def seq_def emit_def)

lemma seq_emit [simp]: "seq (emit w) f = (w # fst (f ()), snd (f ()))"
  by (simp add: seq_def emit_def)

lemma seq_Pair_Inr [simp]: "seq (ws, Inr a) f = (ws @ fst (f a), snd (f a))"
  by (simp add: seq_def)

lemma seq_Pair_Inl [simp]: "seq (ws, Inl sg) f = (ws, Inl sg)"
  by (simp add: seq_def)

lemma andthen_Pair_Inr [simp]: "andthen (ws, Inr a) k = (ws @ fst k, snd k)"
  by (simp add: andthen_def)

lemma andthen_Pair_Inl [simp]: "andthen (ws, Inl sg) k = (ws, Inl sg)"
  by (simp add: andthen_def)

lemma inside_Pair [simp]: "inside c (ws, r) = ([Within c ws], r)"
  by (simp add: inside_def)

lemma fst_emit [simp]: "fst (emit w) = [w]"
  by (simp add: emit_def)

lemma snd_emit [simp]: "snd (emit w) = Inr ()"
  by (simp add: emit_def)

lemma fst_return [simp]: "fst (ui_return a) = []"
  by (simp add: ui_return_def)

lemma snd_return [simp]: "snd (ui_return a) = Inr a"
  by (simp add: ui_return_def)

lemma foreach_emit: "foreach xs (\<lambda>x. emit (g x)) = (map g xs, Inr ())"
  by (induction xs) (simp_all add: ui_return_def emit_def)

subsection \<open>Allergen rendering (tab 3)\<close>

text \<open>
  \<^bold>\<open>C4.\<close>  For an analysis whose \<^verbatim>\<open>allergenAlert\<close> follows the schema (a risk level of
  High, Medium or Low, an advice text, a list of detected allergens), tab 3 shows the risk
  level in red, orange or green respectively, then the advice as a warning unless the
  level is Low, when it is shown as a success, then one line for each detected allergen
  (under a heading, when there is any).
\<close>

theorem allergen_rendering:
  assumes "getitem data ''allergenAlert'' = Inr alert"
    and "getitem alert ''riskLevel'' = Inr (JStr level)"
    and "level = ''High'' \<or> level = ''Medium'' \<or> level = ''Low''"
    and "getitem alert ''advice'' = Inr (JStr advice)"
    and "getitem alert ''detected'' = Inr (JArr (map JStr items))"
  shows "tab_alerts L data =
           ([Markdown (''**Risk Level:** :'' @ spec_risk_color level @ ''['' @ level @ '']''),
             (if level = ''Low'' then Success advice else Warning advice)]
            @ (if items = [] then []
               else Write ''Potential Allergens Detected:''
                    # map (\<lambda>i. Markdown (''- '' @ emoji_red_circle @ '' **'' @ i @ ''**'')) items),
            Inr ())"
proof -
  have c: "lookup_literal risk_color (JStr level) = Inr (spec_risk_color level)"
    using assms(3) by (auto simp: lookup_literal_def risk_color_def spec_risk_color_def)
  show ?thesis
    using assms(3)
    by (auto simp: tab_alerts_def assms(1,2,4,5) c foreach_emit comp_def)
qed

theorem allergen_rendering_witness:
  "\<forall>L. tab_alerts L sample_analysis =
         ([Markdown ''**Risk Level:** :orange[Medium]'',
           Warning ''Avoid'',
           Write ''Potential Allergens Detected:'',
           Markdown (''- '' @ emoji_red_circle @ '' **peanuts**'')],
          Inr ())"
proof
  fix L
  let ?alert = "JObj [(''riskLevel'', JStr ''Medium''), (''detected'', JArr [JStr ''peanuts'']),
                      (''advice'', JStr ''Avoid'')]"
  show "tab_alerts L sample_analysis =
         ([Markdown ''**Risk Level:** :orange[Medium]'',
           Warning ''Avoid'',
           Write ''Potential Allergens Detected:'',
           Markdown (''- '' @ emoji_red_circle @ '' **peanuts**'')],
          Inr ())"
    using allergen_rendering [of sample_analysis ?alert "''Medium''" "''Avoid''" "[''peanuts'']" L]
    by (simp add: sample_analysis_def spec_risk_color_def)
qed

subsection \<open>Binary64 rounding\<close>

lemma pow2_pos [simp]: "0 < pow2 e"
  by (simp add: pow2_def)

lemma pow2_add: "pow2 (a + b) = pow2 a * pow2 b"
  by (simp add: pow2_def power_int_add)

lemma pow2_mono: "a \<le> b \<Longrightarrow> pow2 a \<le> pow2 b"
  by (simp add: pow2_def power_int_increasing)

lemma pow2_strict_mono: "a < b \<Longrightarrow> pow2 a < pow2 b"
  by (simp add: pow2_def power_int_strict_increasing)

lemma pow2_Suc: "pow2 (e + 1) = 2 * pow2 e"
  by (simp add: pow2_add) (simp add: pow2_def)

lemma pow2_nat: "pow2 (int n) = 2 ^ n"
  by (simp add: pow2_def)

lemma ilog2_bounds:
  assumes "0 < a"
  shows "pow2 (ilog2 a) \<le> a \<and> a < pow2 (ilog2 a + 1)"
proof -
  obtain p q where pq: "quotient_of a = (p, q)" by (cases "quotient_of a")
  have q: "0 < q" using pq quotient_of_denom_pos by blast
  have a: "a = of_int p / of_int q" using pq quotient_of_div by blast
  have p: "0 < p" using assms q unfolding a by (simp add: zero_less_divide_iff)
  define bp where "bp = floorlog 2 (nat p)"
  define bq where "bq = floorlog 2 (nat q)"
  have P: "2 ^ (bp - 1) \<le> nat p \<and> nat p < 2 ^ bp"
    unfolding bp_def using floorlog_bounds [of "nat p" 2] p by simp
  have Q: "2 ^ (bq - 1) \<le> nat q \<and> nat q < 2 ^ bq"
    unfolding bq_def using floorlog_bounds [of "nat q" 2] q by simp
  have bp0: "0 < bp" unfolding bp_def using p by (simp add: floorlog_def)
  have bq0: "0 < bq" unfolding bq_def using q by (simp add: floorlog_def)
  define k where "k = int bp - int bq"
  have Pr: "(2::rat) ^ (bp - 1) \<le> of_int p \<and> (of_int p :: rat) < 2 ^ bp"
  proof -
    have "of_nat (2 ^ (bp - 1)) \<le> (of_nat (nat p) :: rat)" using P by (simp only: of_nat_le_iff)
    moreover have "(of_nat (nat p) :: rat) < of_nat (2 ^ bp)" using P by (simp only: of_nat_less_iff)
    ultimately show ?thesis using p by simp
  qed
  have Qr: "(2::rat) ^ (bq - 1) \<le> of_int q \<and> (of_int q :: rat) < 2 ^ bq"
  proof -
    have "of_nat (2 ^ (bq - 1)) \<le> (of_nat (nat q) :: rat)" using Q by (simp only: of_nat_le_iff)
    moreover have "(of_nat (nat q) :: rat) < of_nat (2 ^ bq)" using Q by (simp only: of_nat_less_iff)
    ultimately show ?thesis using q by simp
  qed
  have e1: "pow2 (int bp) = 2 ^ bp" "pow2 (int bq) = 2 ^ bq" by (simp_all add: pow2_nat)
  have e2: "pow2 (int bp - 1) = 2 ^ (bp - 1)" "pow2 (int bq - 1) = 2 ^ (bq - 1)"
    using bp0 bq0 pow2_nat [of "bp - 1"] pow2_nat [of "bq - 1"] by (simp_all add: of_nat_diff)
  have up: "a < pow2 (k + 1)"
  proof -
    have "pow2 (k + 1) * pow2 (int bq - 1) = pow2 (int bp)"
      unfolding k_def pow2_add [symmetric] by simp
    then have "pow2 (k + 1) * 2 ^ (bq - 1) = 2 ^ bp" using e1 e2 by simp
    moreover have "a * of_int q = of_int p" using a q by simp
    ultimately have "a * of_int q < pow2 (k + 1) * 2 ^ (bq - 1)" using Pr by simp
    also have "\<dots> \<le> pow2 (k + 1) * of_int q"
      using Qr pow2_pos [of "k + 1"] by (simp add: mult_le_cancel_left_pos)
    finally show ?thesis using q by (simp add: mult_less_cancel_right_pos)
  qed
  have low: "pow2 (k - 1) \<le> a"
  proof -
    have "pow2 (k - 1) * pow2 (int bq) = pow2 (int bp - 1)"
      unfolding k_def pow2_add [symmetric] by simp
    then have "pow2 (k - 1) * 2 ^ bq = 2 ^ (bp - 1)" using e1 e2 by simp
    moreover have "a * of_int q = of_int p" using a q by simp
    ultimately have "pow2 (k - 1) * 2 ^ bq \<le> a * of_int q" using Pr by simp
    moreover have "pow2 (k - 1) * of_int q \<le> pow2 (k - 1) * 2 ^ bq"
      using Qr pow2_pos [of "k - 1"] by (simp add: mult_le_cancel_left_pos less_imp_le)
    ultimately have "pow2 (k - 1) * of_int q \<le> a * of_int q" by (rule order_trans [rotated])
    then show ?thesis using q by (simp add: mult_le_cancel_right)
  qed
  have il: "ilog2 a = (if pow2 k \<le> a then k else k - 1)"
    unfolding ilog2_def k_def bp_def bq_def by (simp add: pq Let_def)
  show ?thesis
  proof (cases "pow2 k \<le> a")
    case True
    then show ?thesis using il up by simp
  next
    case False
    then show ?thesis using il low by simp
  qed
qed

lemma ilog2_unique:
  assumes "pow2 e \<le> a" "a < pow2 (e + 1)"
  shows "ilog2 a = e"
proof -
  have a: "0 < a" using assms(1) pow2_pos [of e] by (rule less_le_trans [rotated])
  note b = ilog2_bounds [OF a]
  have "\<not> ilog2 a < e"
  proof
    assume "ilog2 a < e"
    then have "pow2 (ilog2 a + 1) \<le> pow2 e" by (intro pow2_mono) simp
    then show False using b assms by simp
  qed
  moreover have "\<not> e < ilog2 a"
  proof
    assume "e < ilog2 a"
    then have "pow2 (e + 1) \<le> pow2 (ilog2 a)" by (intro pow2_mono) simp
    then show False using b assms by simp
  qed
  ultimately show ?thesis by simp
qed

lemma rhe_of_int [simp]: "round_half_even (of_int n) = n"
  by (simp add: round_half_even_def)

lemma rhe_ge_floor: "\<lfloor>x\<rfloor> \<le> round_half_even x"
  by (simp add: round_half_even_def Let_def)

lemma rhe_le_floor_Suc: "round_half_even x \<le> \<lfloor>x\<rfloor> + 1"
  by (simp add: round_half_even_def Let_def)

lemma rhe_unfold:
  "round_half_even x =
     (if x - of_int \<lfloor>x\<rfloor> < 1 / 2 then \<lfloor>x\<rfloor>
      else if 1 / 2 < x - of_int \<lfloor>x\<rfloor> then \<lfloor>x\<rfloor> + 1
      else if even \<lfloor>x\<rfloor> then \<lfloor>x\<rfloor> else \<lfloor>x\<rfloor> + 1)"
  by (simp only: round_half_even_def Let_def)

lemma rhe_mono:
  assumes "x \<le> y"
  shows "round_half_even x \<le> round_half_even y"
proof (cases "\<lfloor>x\<rfloor> = \<lfloor>y\<rfloor>")
  case True
  define f where "f = \<lfloor>y\<rfloor>"
  have fx: "\<lfloor>x\<rfloor> = f" using True by (simp add: f_def)
  have d: "x - of_int f \<le> y - of_int f" using assms by simp
  show ?thesis
    unfolding rhe_unfold [of x] rhe_unfold [of y] fx f_def [symmetric]
    using d by (simp split: if_splits)
next
  case False
  then have "\<lfloor>x\<rfloor> < \<lfloor>y\<rfloor>"
    using assms floor_mono [of x y] by simp
  then have "round_half_even x \<le> \<lfloor>y\<rfloor>"
    using rhe_le_floor_Suc [of x] by simp
  then show ?thesis
    using rhe_ge_floor [of y] by simp
qed

lemma rhe_minus: "round_half_even (- x) = - round_half_even x"
proof (cases "x = of_int \<lfloor>x\<rfloor>")
  case True
  define n where "n = \<lfloor>x\<rfloor>"
  have n: "x = of_int n" unfolding n_def by (rule True)
  have "round_half_even (of_int (- n)) = - n" by (rule rhe_of_int)
  then show ?thesis
    unfolding n by simp
next
  case False
  define f where "f = \<lfloor>x\<rfloor>"
  define d where "d = x - of_int f"
  have le: "of_int \<lfloor>x\<rfloor> \<le> x" by (rule of_int_floor_le)
  have "of_int \<lfloor>x\<rfloor> \<noteq> x" using False by (rule not_sym)
  then have "of_int \<lfloor>x\<rfloor> < x" using le by (rule order.not_eq_order_implies_strict)
  then have lt: "0 < d"
    unfolding d_def f_def by simp
  have d1: "d < 1"
    unfolding d_def f_def by linarith
  have x: "x = of_int f + d" by (simp add: d_def)
  have f': "\<lfloor>- x\<rfloor> = - f - 1"
    by (rule floor_unique) (use lt d1 in \<open>simp_all add: x\<close>)
  have fx: "\<lfloor>x\<rfloor> = f" by (simp add: f_def)
  have e: "even (- f - 1) \<longleftrightarrow> odd f" by simp
  have 1: "- x - of_int (- f - 1) = 1 - d" by (simp add: x)
  have 2: "x - of_int f = d" by (simp add: x)
  show ?thesis
    unfolding rhe_unfold [of x] rhe_unfold [of "- x"] f' fx 1 2 e
    using lt d1 by (simp split: if_splits)
qed

lemma rhe_nonneg: "0 \<le> x \<Longrightarrow> 0 \<le> round_half_even x"
  using rhe_mono [of 0 x] rhe_of_int [of 0] by simp

lemma quantum_pos [simp]: "0 < quantum x"
  by (simp add: quantum_def)

lemma round64_quantum: "x \<noteq> 0 \<Longrightarrow> round64 x = of_int (round_half_even (x / quantum x)) * quantum x"
  by (simp add: round64_def quantum_def Let_def)

lemma quantum_minus [simp]: "quantum (- x) = quantum x"
  by (simp add: quantum_def)

lemma round64_minus: "round64 (- x) = - round64 x"
proof (cases "x = 0")
  case True
  then show ?thesis by (simp add: round64_def)
next
  case False
  then show ?thesis
    by (simp add: round64_quantum rhe_minus)
qed

lemma round64_0 [simp]: "round64 0 = 0"
  by (simp add: round64_def)

lemma round64_nonneg: "0 \<le> x \<Longrightarrow> 0 \<le> round64 x"
  by (cases "x = 0") (simp_all add: round64_quantum rhe_nonneg less_imp_le)

lemma round64_exact:
  assumes "x = of_int m * quantum x"
  shows "round64 x = x"
proof (cases "x = 0")
  case True
  then show ?thesis by simp
next
  case False
  have "x / quantum x = of_int m"
    using assms quantum_pos [of x] by (metis nonzero_mult_div_cancel_right less_irrefl)
  then show ?thesis
    using False assms by (simp add: round64_quantum)
qed

lemma scaled_round_bounds:
  assumes "0 < q" "of_int lo * q \<le> a" "a \<le> of_int hi * q"
  shows "of_int lo * q \<le> of_int (round_half_even (a / q)) * q
       \<and> of_int (round_half_even (a / q)) * q \<le> of_int hi * q"
proof -
  have "of_int lo \<le> a / q"
    using assms(1,2) by (simp add: pos_le_divide_eq)
  then have 1: "lo \<le> round_half_even (a / q)"
    using rhe_mono [of "of_int lo" "a / q"] by simp
  have "a / q \<le> of_int hi"
    using assms(1,3) by (simp add: pos_divide_le_eq)
  then have 2: "round_half_even (a / q) \<le> hi"
    using rhe_mono [of "a / q" "of_int hi"] by simp
  show ?thesis
    using 1 2 assms(1) by (simp add: mult_le_cancel_right)
qed

lemma pow2_52: "pow2 52 = of_int (2 ^ 52)" and pow2_53: "pow2 53 = of_int (2 ^ 53)"
  by (simp_all add: pow2_def)

text \<open>Bounds of the rounded value of a positive number, by its binade.\<close>

lemma round64_binade:
  assumes "pow2 e \<le> a" "a < pow2 (e + 1)" "- 1022 \<le> e"
  shows "pow2 e \<le> round64 a \<and> round64 a \<le> pow2 (e + 1)"
proof -
  have a0: "0 < a" using assms(1) pow2_pos [of e] by (rule less_le_trans [rotated])
  have q: "quantum a = pow2 (e - 52)"
    using ilog2_unique [OF assms(1,2)] a0 assms(3) by (simp add: quantum_def)
  have lo: "pow2 e = of_int (2 ^ 52) * pow2 (e - 52)"
    using pow2_add [of 52 "e - 52"] unfolding pow2_52 by simp
  have hi: "pow2 (e + 1) = of_int (2 ^ 53) * pow2 (e - 52)"
    using pow2_add [of 53 "e - 52"] unfolding pow2_53 by (simp add: add.commute)
  have r: "round64 a = of_int (round_half_even (a / pow2 (e - 52))) * pow2 (e - 52)"
    using a0 by (simp add: round64_quantum q)
  show ?thesis
    unfolding r lo hi
    by (rule scaled_round_bounds) (use assms(1,2) lo hi in \<open>simp_all add: less_imp_le\<close>)
qed

lemma round64_subnormal:
  assumes "0 < a" "a < pow2 (- 1022)"
  shows "round64 a \<le> pow2 (- 1022)"
proof -
  have "ilog2 a < - 1022"
  proof (rule ccontr)
    assume "\<not> ilog2 a < - 1022"
    then have "pow2 (- 1022) \<le> pow2 (ilog2 a)" by (intro pow2_mono) simp
    then show False using ilog2_bounds [OF assms(1)] assms(2) by simp
  qed
  then have q: "quantum a = pow2 (- 1074)"
    using assms(1) by (simp add: quantum_def max_def)
  have hi: "pow2 (- 1022) = of_int (2 ^ 52) * pow2 (- 1074)"
    using pow2_add [of 52 "- 1074"] unfolding pow2_52 by simp
  have r: "round64 a = of_int (round_half_even (a / pow2 (- 1074))) * pow2 (- 1074)"
    using assms(1) by (simp add: round64_quantum q)
  have "of_int 0 * pow2 (- 1074) \<le> of_int (round_half_even (a / pow2 (- 1074))) * pow2 (- 1074)
     \<and> of_int (round_half_even (a / pow2 (- 1074))) * pow2 (- 1074) \<le> of_int (2 ^ 52) * pow2 (- 1074)"
    by (rule scaled_round_bounds) (use assms hi in \<open>simp_all add: less_imp_le\<close>)
  then show ?thesis unfolding r hi by simp
qed

lemma ilog2_mono:
  assumes "0 < x" "x \<le> y"
  shows "ilog2 x \<le> ilog2 y"
proof (rule ccontr)
  assume "\<not> ilog2 x \<le> ilog2 y"
  then have "pow2 (ilog2 y + 1) \<le> pow2 (ilog2 x)" by (intro pow2_mono) simp
  moreover have "0 < y" using assms by simp
  ultimately show False
    using ilog2_bounds [OF assms(1)] ilog2_bounds [OF \<open>0 < y\<close>] assms(2) by simp
qed

lemma round64_upper:
  assumes "0 < x"
  shows "round64 x \<le> pow2 (max (ilog2 x) (- 1022) + 1)"
proof (cases "- 1022 \<le> ilog2 x")
  case True
  then show ?thesis
    using round64_binade [of "ilog2 x" x] ilog2_bounds [OF assms] by (simp add: max_def)
next
  case False
  then have "pow2 (ilog2 x + 1) \<le> pow2 (- 1022)" by (intro pow2_mono) simp
  then have "x < pow2 (- 1022)" using ilog2_bounds [OF assms] by simp
  then have "round64 x \<le> pow2 (- 1022)" using assms by (rule round64_subnormal [rotated])
  moreover have "pow2 (- 1022) \<le> pow2 (- 1022 + 1)" by (intro pow2_mono) simp
  ultimately show ?thesis using False by (simp add: max_def)
qed

lemma round64_mono_pos:
  assumes "0 < x" "x \<le> y"
  shows "round64 x \<le> round64 y"
proof -
  have y: "0 < y" using assms by simp
  define Ex where "Ex = max (ilog2 x) (- 1022)"
  define Ey where "Ey = max (ilog2 y) (- 1022)"
  have le: "Ex \<le> Ey" unfolding Ex_def Ey_def using ilog2_mono [OF assms] by simp
  show ?thesis
  proof (cases "Ex = Ey")
    case True
    have q: "quantum y = quantum x"
      using True assms y by (simp add: quantum_def Ex_def Ey_def)
    have "x / quantum x \<le> y / quantum x"
      using assms(2) by (rule divide_right_mono) (simp add: less_imp_le)
    then have "round_half_even (x / quantum x) \<le> round_half_even (y / quantum x)"
      by (rule rhe_mono)
    then have "(of_int (round_half_even (x / quantum x)) :: rat) * quantum x
        \<le> of_int (round_half_even (y / quantum x)) * quantum x"
      by (intro mult_right_mono) (simp_all add: less_imp_le)
    then show ?thesis
      using assms(1) y by (simp add: round64_quantum q)
  next
    case False
    then have lt: "Ex < Ey" using le by simp
    then have ey: "Ey = ilog2 y" "- 1022 \<le> ilog2 y"
      unfolding Ex_def Ey_def by (simp_all add: max_def split: if_splits)
    have "round64 x \<le> pow2 (Ex + 1)"
      unfolding Ex_def by (rule round64_upper [OF assms(1)])
    also have "\<dots> \<le> pow2 (ilog2 y)"
      using lt ey by (intro pow2_mono) simp
    also have "\<dots> \<le> round64 y"
      using round64_binade [of "ilog2 y" y] ilog2_bounds [OF y] ey by simp
    finally show ?thesis .
  qed
qed

lemma round64_mono:
  assumes "x \<le> y"
  shows "round64 x \<le> round64 y"
proof -
  consider "0 < x" | "x \<le> 0" "0 \<le> y" | "y < 0" using assms by linarith
  then show ?thesis
  proof cases
    case 1
    then show ?thesis using assms by (rule round64_mono_pos)
  next
    case 2
    have "0 \<le> round64 (- x)" using 2(1) by (intro round64_nonneg) simp
    then have "round64 x \<le> 0" by (simp add: round64_minus)
    moreover have "0 \<le> round64 y" using 2(2) by (rule round64_nonneg)
    ultimately show ?thesis by simp
  next
    case 3
    have "round64 (- y) \<le> round64 (- x)"
      by (rule round64_mono_pos) (use 3 assms in simp_all)
    then show ?thesis by (simp add: round64_minus)
  qed
qed

lemma round64_pow2:
  assumes "- 1022 \<le> e"
  shows "round64 (pow2 e) = pow2 e"
proof (rule round64_exact)
  have "pow2 e < pow2 (e + 1)" by (intro pow2_strict_mono) simp
  then have "ilog2 (pow2 e) = e" by (intro ilog2_unique) simp_all
  then have q: "quantum (pow2 e) = pow2 (e - 52)"
    using assms by (simp add: quantum_def abs_of_pos)
  show "pow2 e = of_int (2 ^ 52) * quantum (pow2 e)"
    unfolding q using pow2_add [of 52 "e - 52"] unfolding pow2_52 by simp
qed

lemma pow2_0 [simp]: "pow2 0 = 1"
  by (simp add: pow2_def)

lemma round64_1 [simp]: "round64 1 = 1"
  using round64_pow2 [of 0] by simp

lemma round64_ge_1: "1 \<le> x \<Longrightarrow> 1 \<le> round64 x"
  using round64_mono [of 1 x] by simp

lemma round64_le_1: "x \<le> 1 \<Longrightarrow> round64 x \<le> 1"
  using round64_mono [of x 1] by simp

lemma round64_abs: "\<bar>round64 x\<bar> = round64 \<bar>x\<bar>"
proof (cases "0 \<le> x")
  case True
  then show ?thesis using round64_nonneg [of x] by simp
next
  case False
  then have "0 \<le> round64 (- x)" by (intro round64_nonneg) simp
  then show ?thesis using False by (simp add: round64_minus abs_if)
qed

lemma pow2_1023_less: "pow2 1023 < 2 ^ 1024"
proof -
  have "pow2 1023 < pow2 1024" by (intro pow2_strict_mono) simp
  also have "pow2 1024 = 2 ^ 1024" using pow2_nat [of 1024] by simp
  finally show ?thesis .
qed

text \<open>A value of magnitude at most \<open>2 ^ 1023\<close> rounds without overflow.\<close>

lemma not_overflows_round64:
  assumes "\<bar>x\<bar> \<le> pow2 1023"
  shows "\<not> overflows (round64 x)"
proof -
  have "round64 \<bar>x\<bar> \<le> round64 (pow2 1023)" using assms by (rule round64_mono)
  then have "\<bar>round64 x\<bar> \<le> pow2 1023" by (simp add: round64_abs round64_pow2)
  then show ?thesis
    unfolding overflows_def using pow2_1023_less by simp
qed

lemma round64_idem:
  assumes "is_binary64 r"
  shows "round64 r = r"
  using assms by (simp add: is_binary64_def)

text \<open>Evaluation of a rounding whose binade is known.\<close>

lemma round64_eval:
  assumes "pow2 e \<le> \<bar>x\<bar>" "\<bar>x\<bar> < pow2 (e + 1)" "- 1022 \<le> e"
  shows "round64 x = of_int (round_half_even (x / pow2 (e - 52))) * pow2 (e - 52)"
proof -
  have "0 < \<bar>x\<bar>" using assms(1) pow2_pos [of e] by (rule less_le_trans [rotated])
  then have x: "x \<noteq> 0" by simp
  have "quantum x = pow2 (e - 52)"
    using ilog2_unique [OF assms(1,2)] assms(3) by (simp add: quantum_def)
  then show ?thesis using x by (simp add: round64_quantum)
qed

lemma floor_rat_numeral [simp]:
  "\<lfloor>numeral a / numeral b :: rat\<rfloor> = numeral a div numeral b"
  using floor_divide_of_int_eq [of "numeral a" "numeral b", where ?'a = rat] by simp

lemma floor_rat_neg_numeral [simp]:
  "\<lfloor>- (numeral a / numeral b) :: rat\<rfloor> = - numeral a div numeral b"
  using floor_divide_of_int_eq [of "- numeral a" "numeral b", where ?'a = rat] by simp

subsection \<open>Blocks of the page\<close>

lemma snd_seq_Inr: "snd (seq m f) = Inr b \<longleftrightarrow> (\<exists>a. snd m = Inr a \<and> snd (f a) = Inr b)"
  by (cases m; cases "snd m") (auto simp: seq_def)

lemma snd_andthen_Inr: "snd (andthen m k) = Inr b \<longleftrightarrow> (snd m = Inr () \<and> snd k = Inr b)"
  by (simp add: andthen_def snd_seq_Inr)

lemma snd_lift_Inr: "snd (lift x) = Inr a \<longleftrightarrow> x = Inr a"
  by (cases x) (auto simp: lift_def)

lemma snd_inside [simp]: "snd (inside c m) = snd m"
  by (simp add: inside_def)

lemma shown_errors_simps [simp]:
  "shown_errors [] = []"
  "shown_errors (w # ws) = errors_shown w @ shown_errors ws"
  "shown_errors (ws @ vs) = shown_errors ws @ shown_errors vs"
  by (simp_all add: shown_errors_def)

lemma errors_shown_Within [simp]: "errors_shown (Within c ws) = shown_errors ws"
  by (simp add: shown_errors_def)

declare errors_shown.simps(2) [simp del]

lemma calm_return: "calm (ui_return a)"
  by (simp add: calm_def)

lemma calm_lift: "calm (lift x)"
  by (cases x) (simp_all add: calm_def lift_def)

lemma calm_emit: "errors_shown w = [] \<Longrightarrow> calm (emit w)"
  by (simp add: calm_def)

lemma calm_seq: "calm m \<Longrightarrow> (\<And>a. calm (f a)) \<Longrightarrow> calm (seq m f)"
  by (cases m; cases "snd m") (auto simp: calm_def seq_def)

lemma calm_andthen: "calm m \<Longrightarrow> calm k \<Longrightarrow> calm (andthen m k)"
  by (simp add: andthen_def calm_seq)

lemma calm_inside: "calm m \<Longrightarrow> calm (inside c m)"
  by (simp add: calm_def inside_def shown_errors_def)

lemma calm_foreach: "(\<And>x. calm (f x)) \<Longrightarrow> calm (foreach xs f)"
  by (induction xs) (auto intro: calm_return calm_andthen)

lemma calm_if: "calm a \<Longrightarrow> calm b \<Longrightarrow> calm (if c then a else b)"
  by simp

lemma calm_case_prod: "(\<And>a b. calm (f a b)) \<Longrightarrow> calm (case x of (a, b) \<Rightarrow> f a b)"
  by (cases x) simp

lemmas calm_intros =
  calm_return calm_lift calm_emit calm_seq calm_andthen calm_inside calm_foreach calm_if
  calm_case_prod

lemma calm_badges: "calm (badges L data)"
  unfolding badges_def by (intro calm_intros) simp_all

lemma calm_tab_nutrition: "calm (tab_nutrition L data g)"
  unfolding tab_nutrition_def energy_metric_def macro_card_def by (intro calm_intros) simp_all

lemma calm_tab_recipe: "calm (tab_recipe L data)"
  unfolding tab_recipe_def by (intro calm_intros) simp_all

lemma calm_tab_alerts: "calm (tab_alerts L data)"
  unfolding tab_alerts_def by (intro calm_intros) simp_all

lemma calm_panel_header: "calm (panel_header L data)"
  unfolding panel_header_def by (intro calm_intros calm_badges) simp_all

lemma calm_right_panel: "calm (right_panel L s)"
  unfolding right_panel_def
  by (intro calm_intros calm_panel_header calm_tab_nutrition calm_tab_recipe calm_tab_alerts)
    simp_all

lemma tab_alerts_bad_level:
  assumes "getitem data ''allergenAlert'' = Inr alert"
    and "getitem alert ''riskLevel'' = Inr v"
    and "v \<noteq> JStr ''High''" "v \<noteq> JStr ''Medium''" "v \<noteq> JStr ''Low''"
  shows "tab_alerts L data =
           ([], Inl (Raise (if hashable v then KeyError v
                            else TypeError (''unhashable type: '' @ quoted (type_name v)))))"
proof -
  have "lookup_literal risk_color v =
          Inl (if hashable v then KeyError v
               else TypeError (''unhashable type: '' @ quoted (type_name v)))"
    using assms(3-5)
    by (cases v) (auto simp: lookup_literal_def risk_color_def split: option.splits if_splits)
  then show ?thesis
    by (simp add: tab_alerts_def assms(1,2))
qed

lemma right_panel_needs_tab_alerts:
  assumes "truthy (analysis s)" "snd (right_panel L s) = Inr u"
  shows "snd (tab_alerts L (analysis s)) = Inr ()"
  using assms
  by (simp add: right_panel_def snd_seq_Inr snd_andthen_Inr del: andthen_emit seq_emit seq_lift_Inr seq_lift_Inl)

subsection \<open>The progress indicator of a macro card\<close>

lemma pow2_1023: "pow2 1023 = 2 ^ 1023"
  using pow2_nat [of 1023] by simp

lemma int_truediv_ranged:
  assumes "0 < g" "\<bar>a\<bar> \<le> 2 ^ 1023"
  shows "int_truediv a g = Inr (Finite (round64 (of_int a / of_int g)))"
proof -
  have g1: "(1::rat) \<le> of_int g" using assms(1) by simp
  have "\<bar>of_int a / of_int g :: rat\<bar> = \<bar>of_int a\<bar> / of_int g"
    using assms(1) by simp
  also have "\<dots> \<le> \<bar>of_int a\<bar> / 1"
    using g1 by (intro divide_left_mono) simp_all
  also have "\<dots> \<le> pow2 1023"
    unfolding pow2_1023 using assms(2) by (simp flip: of_int_abs)
  finally have "\<not> overflows (round64 (of_int a / of_int g))"
    by (rule not_overflows_round64)
  then show ?thesis
    using assms(1) by (simp add: int_truediv_def Let_def)
qed

lemma int_to_float_ranged:
  assumes "\<bar>g\<bar> \<le> 2 ^ 1023"
  shows "int_to_float g = Inr (Finite (round64 (of_int g)))"
proof -
  have "\<bar>of_int g :: rat\<bar> \<le> pow2 1023"
    unfolding pow2_1023 using assms by (simp flip: of_int_abs)
  then have "\<not> overflows (round64 (of_int g))"
    by (rule not_overflows_round64)
  then show ?thesis
    by (simp add: int_to_float_def Let_def)
qed

lemma py_min_one: "py_min (Finite r) (Finite 1) = (if 1 < r then Finite 1 else Finite r)"
  by (simp add: py_min_def)

lemma progress_int:
  assumes "0 < g" "\<bar>a\<bar> \<le> 2 ^ 1023"
  shows "progress_value (JInt a) g = (if g < a then Inr (Finite 1) else py_truediv (JInt a) g)"
proof -
  let ?r = "round64 (of_int a / of_int g)"
  have d: "int_truediv a g = Inr (Finite ?r)" using assms by (rule int_truediv_ranged)
  show ?thesis
  proof (cases "g < a")
    case True
    then have "(1::rat) \<le> of_int a / of_int g" using assms(1) by (simp add: pos_le_divide_eq)
    then have "1 \<le> ?r" by (rule round64_ge_1)
    then show ?thesis using True by (auto simp: progress_value_def d py_min_one)
  next
    case False
    then have "of_int a / of_int g \<le> (1::rat)" using assms(1) by (simp add: pos_divide_le_eq)
    then have "?r \<le> 1" by (rule round64_le_1)
    then show ?thesis using False by (simp add: progress_value_def d py_min_one)
  qed
qed

lemma progress_float:
  assumes "0 < g" "g \<le> 2 ^ 1023" "is_binary64 x"
  shows "progress_value (JFloat (Finite x)) g
           = (if of_int g < x then Inr (Finite 1) else py_truediv (JFloat (Finite x)) g)
       \<and> (\<exists>q. py_truediv (JFloat (Finite x)) g = Inr (Finite q))"
proof -
  let ?g = "round64 (of_int g)"
  let ?r = "round64 (x / ?g)"
  have c: "int_to_float g = Inr (Finite ?g)" using assms(1,2) by (intro int_to_float_ranged) simp
  have g1: "1 \<le> ?g" using assms(1) by (intro round64_ge_1) simp
  have x: "round64 x = x" "\<not> overflows x" using assms(3) by (simp_all add: is_binary64_def)
  have "\<bar>x / ?g\<bar> = \<bar>x\<bar> / ?g" using g1 by simp
  also have "\<dots> \<le> \<bar>x\<bar> / 1" using g1 by (intro divide_left_mono) simp_all
  finally have "round64 \<bar>x / ?g\<bar> \<le> round64 \<bar>x\<bar>" by (intro round64_mono) simp
  moreover have "\<bar>?r\<bar> = round64 \<bar>x / ?g\<bar>" by (rule round64_abs)
  moreover have "round64 \<bar>x\<bar> = \<bar>x\<bar>" using round64_abs [of x] x(1) by simp
  ultimately have "\<bar>?r\<bar> \<le> \<bar>x\<bar>" by simp
  then have no: "\<not> overflows ?r" using x(2) by (simp add: overflows_def)
  have d: "py_truediv (JFloat (Finite x)) g = Inr (Finite ?r)"
    using g1 no by (simp add: c float_div_def finite_result_def Let_def)
  show ?thesis
  proof (cases "of_int g < x")
    case True
    then have "?g \<le> x" using round64_mono [of "of_int g" x] x(1) by simp
    then have "1 \<le> x / ?g" using g1 by (simp add: pos_le_divide_eq)
    then have "1 \<le> ?r" by (rule round64_ge_1)
    then show ?thesis using True d by (auto simp: progress_value_def py_min_one)
  next
    case False
    then have "x \<le> ?g" using round64_mono [of x "of_int g"] x(1) by simp
    then have "x / ?g \<le> 1" using g1 by (simp add: pos_divide_le_eq)
    then have "?r \<le> 1" by (rule round64_le_1)
    then show ?thesis using False d by (simp add: progress_value_def py_min_one)
  qed
qed

lemma progress_inf:
  assumes "0 < g" "g \<le> 2 ^ 1023"
  shows "progress_value (JFloat PosInf) g = Inr (Finite 1)"
    and "progress_value (JFloat NegInf) g = Inr NegInf"
    and "py_truediv (JFloat NegInf) g = Inr NegInf"
    and "py_truediv (JFloat PosInf) g = Inr PosInf"
proof -
  let ?g = "round64 (of_int g)"
  have c: "int_to_float g = Inr (Finite ?g)" using assms by (intro int_to_float_ranged) simp
  have g1: "1 \<le> ?g" using assms(1) by (intro round64_ge_1) simp
  then have g0: "0 < ?g" "?g \<noteq> 0" by simp_all
  show "progress_value (JFloat PosInf) g = Inr (Finite 1)"
    using g0 by (simp add: progress_value_def c float_div_def py_min_def)
  show "py_truediv (JFloat PosInf) g = Inr PosInf"
    using g0 by (simp add: c float_div_def)
  show "py_truediv (JFloat NegInf) g = Inr NegInf"
    using g0 by (simp add: c float_div_def)
  then show "progress_value (JFloat NegInf) g = Inr NegInf"
    by (simp add: progress_value_def py_min_def)
qed

text \<open>
  \<^bold>\<open>C3 (as amended).\<close>  For a positive goal (within the range of a float) and every macro
  value that is a number, the argument of \<^verbatim>\<open>st.progress\<close> is exactly \<open>1.0\<close> when the value
  exceeds the goal, and is the quotient \<^verbatim>\<open>value / goal\<close> itself otherwise; the quotient is
  always computed (no exception).
\<close>

theorem progress_clamped:
  assumes "0 < g" "g \<le> 2 ^ 1023" "float_ranged v"
  shows "progress_value v g = (if exceeds v g then Inr (Finite 1) else py_truediv v g)
       \<and> (\<exists>q. py_truediv v g = Inr q)"
proof (cases v)
  case (JInt a)
  then show ?thesis
    using assms progress_int [of g a] int_truediv_ranged [of g a] by simp
next
  case (JBool b)
  have "progress_value (JBool b) g = progress_value (JInt (if b then 1 else 0)) g"
    by (simp add: progress_value_def)
  then show ?thesis
    using JBool assms(1) progress_int [of g "if b then 1 else 0"]
      int_truediv_ranged [of g "if b then 1 else 0"] by (simp split: if_splits)
next
  case (JFloat f)
  then show ?thesis
    using assms progress_float [of g] progress_inf [of g] by (cases f) auto
qed (use assms(3) in simp_all)

subsection \<open>Concrete roundings\<close>


lemma rhe_numeral [simp]: "round_half_even (numeral n) = numeral n"
  using rhe_of_int [of "numeral n"] by simp


lemma round64_half: "round64 (1 / 2) = 1 / 2"
  using round64_pow2 [of "- 1"] by (simp add: pow2_def)

lemma round64_neg_half: "round64 (- (1 / 2)) = - (1 / 2)"
  using round64_minus [of "1 / 2"] by (simp add: round64_half)


lemma round64_5_4: "round64 (5 / 4) = 5 / 4"
  by (subst round64_eval [of 0]) (simp_all add: pow2_def rhe_unfold)

lemma small_not_overflows: "\<bar>r\<bar> \<le> 2 ^ 64 \<Longrightarrow> \<not> overflows r"
proof -
  assume "\<bar>r\<bar> \<le> 2 ^ 64"
  moreover have "(2::rat) ^ 64 < 2 ^ 1024" by (rule power_strict_increasing) simp_all
  ultimately show ?thesis by (simp add: overflows_def)
qed



lemma progress_60_120: "progress_value (JInt 60) 120 = Inr (Finite (1 / 2))"
  by (simp add: progress_value_def int_truediv_def round64_half small_not_overflows py_min_def)

lemma progress_5_neg10: "progress_value (JInt 5) (- 10) = Inr (Finite (- (1 / 2)))"
  by (simp add: progress_value_def int_truediv_def round64_neg_half small_not_overflows py_min_def)

lemma truediv_150_120: "int_truediv 150 120 = Inr (Finite (5 / 4))"
  by (simp add: int_truediv_def round64_5_4 small_not_overflows)

text \<open>The example of the specification: 150 g against a goal of 120 g, and 60 g against it.\<close>

theorem progress_clamped_witness:
  "0 < (120::int) \<and> float_ranged (JInt 150) \<and> exceeds (JInt 150) 120
   \<and> py_truediv (JInt 150) 120 = Inr (Finite (5 / 4))
   \<and> progress_value (JInt 150) 120 = Inr (Finite 1)
   \<and> \<not> exceeds (JInt 60) 120 \<and> progress_value (JInt 60) 120 = Inr (Finite (1 / 2))"
  using progress_clamped [of 120 "JInt 150"] progress_clamped [of 120 "JInt 60"]
  by (simp add: truediv_150_120 progress_60_120)

text \<open>
  The claim as stated, for every goal: with the goal \<open>- 10\<close>, which the sidebar accepts, the
  value 5 exceeds the goal and the argument of \<^verbatim>\<open>st.progress\<close> is \<open>- 0.5\<close>; with the goal 0
  the division raises.
\<close>

theorem progress_unclamped_counterexample:
  "exceeds (JInt 5) (- 10)
   \<and> progress_value (JInt 5) (- 10) = Inr (Finite (- (1 / 2)))
   \<and> progress_value (JInt 5) (- 10) \<noteq> Inr (Finite 1)
   \<and> exceeds (JInt 5) 0
   \<and> progress_value (JInt 5) 0 = Inl (ZeroDivisionError ''division by zero'')"
  by (simp add: progress_5_neg10) (simp add: progress_value_def int_truediv_def)

subsection \<open>Percentage of the daily goal\<close>

lemma round64_bounded:
  assumes "\<bar>x\<bar> \<le> pow2 e" "- 1022 \<le> e"
  shows "\<bar>round64 x\<bar> \<le> pow2 e"
proof -
  have "round64 \<bar>x\<bar> \<le> round64 (pow2 e)" using assms(1) by (rule round64_mono)
  then show ?thesis using assms(2) by (simp add: round64_abs round64_pow2)
qed

lemma pow2_1000: "pow2 1000 = 2 ^ 1000"
  using pow2_nat [of 1000] by simp

lemma percent_tail:
  assumes "\<bar>y\<bar> \<le> pow2 1000"
  shows "py_round (times_100 (Finite (round64 y)))
           = Inr (round_half_even (round64 (round64 y * 100)))"
proof -
  have r: "\<bar>round64 y\<bar> \<le> pow2 1000" using assms by (rule round64_bounded) simp
  have "\<bar>round64 y * 100\<bar> \<le> pow2 1000 * 128" using r by (simp add: abs_mult)
  also have "\<dots> = pow2 1007" using pow2_add [of 1000 7] by (simp add: pow2_def)
  also have "\<dots> \<le> pow2 1023" by (intro pow2_mono) simp
  finally have "\<not> overflows (round64 (round64 y * 100))" by (rule not_overflows_round64)
  then show ?thesis
    by (simp add: times_100_def finite_result_def Let_def)
qed

lemma quotient_bounded:
  assumes "\<bar>x\<bar> \<le> pow2 1000" "1 \<le> \<bar>d\<bar>"
  shows "\<bar>x / d\<bar> \<le> pow2 1000" "\<not> overflows (round64 (x / d))"
proof -
  have "\<bar>x / d\<bar> = \<bar>x\<bar> / \<bar>d\<bar>" by simp
  also have "\<dots> \<le> \<bar>x\<bar> / 1" using assms(2) by (intro divide_left_mono) simp_all
  finally show q: "\<bar>x / d\<bar> \<le> pow2 1000" using assms(1) by simp
  have "pow2 1000 \<le> pow2 1023" by (intro pow2_mono) simp
  then show "\<not> overflows (round64 (x / d))" using q by (intro not_overflows_round64) simp
qed

lemma percent_int:
  assumes "g \<noteq> 0" "\<bar>c\<bar> \<le> 2 ^ 1000"
  shows "percent_of_goal (JInt c) g = Inr (spec_percentage (JInt c) g)"
proof -
  have g1: "(1::rat) \<le> \<bar>of_int g\<bar>" using assms(1) by (simp flip: of_int_abs)
  have c: "\<bar>of_int c :: rat\<bar> \<le> pow2 1000"
    unfolding pow2_1000 using assms(2) by (simp flip: of_int_abs)
  note q = quotient_bounded [OF c g1]
  have d: "int_truediv c g = Inr (Finite (round64 (of_int c / of_int g)))"
    using assms(1) q(2) by (simp add: int_truediv_def Let_def)
  show ?thesis
    by (simp add: percent_of_goal_def d percent_tail [OF q(1)] spec_percentage_def)
qed




lemma sublist_simps [simp]:
  "sublist (x # xs) (y # ys) \<longleftrightarrow> prefix (x # xs) (y # ys) \<or> sublist (x # xs) ys"
  by (rule sublist_Cons_right)



subsection \<open>How a block ends\<close>

lemma snd_andthen:
  "snd (andthen m k) = (case snd m of Inl sg \<Rightarrow> Inl sg | Inr _ \<Rightarrow> snd k)"
  by (cases m; cases "snd m") (auto simp: andthen_def seq_def)

lemma snd_seq:
  "snd (seq m f) = (case snd m of Inl sg \<Rightarrow> Inl sg | Inr a \<Rightarrow> snd (f a))"
  by (cases m; cases "snd m") (auto simp: seq_def)

lemma snd_lift: "snd (lift x) = (case x of Inl e \<Rightarrow> Inl (Raise e) | Inr a \<Rightarrow> Inr a)"
  by (simp add: lift_def)

lemmas snd_block = snd_andthen snd_seq snd_lift

lemma calm_case_option:
  "calm a \<Longrightarrow> (\<And>x. calm (f x)) \<Longrightarrow> calm (case x of None \<Rightarrow> a | Some y \<Rightarrow> f y)"
  by (cases x) simp_all

lemma calm_case_input_method:
  "calm a \<Longrightarrow> calm b \<Longrightarrow> calm (case x of Camera \<Rightarrow> a | Upload \<Rightarrow> b)"
  by (cases x) simp_all

lemma calm_sidebar: "calm (sidebar ia s)"
  unfolding sidebar_def number_input_def by (intro calm_intros) simp_all

lemma calm_acquire_image: "calm (acquire_image L ia)"
  unfolding acquire_image_def
  by (intro calm_intros calm_case_option calm_case_input_method) simp_all

lemma sidebar_result:
  "snd (sidebar ia s) = Inr (s\<lparr>goals := entered_goals ia (goals s)\<rparr>)"
  by (simp add: sidebar_def number_input_def entered_goals_def inside_def)

subsection \<open>The handler of the Decode button\<close>

lemma decode_nutrition_success:
  assumes "image_to_base64 L img = Inr b64" "call_gemini L api_key b64 = Inr result"
  shows "decode_nutrition L api_key img s =
           ([Within (''status: '' @ emoji_lens @ '' Analyzing food matrix...'')
               [Write ''Encoding image...'', Write ''Consulting AI Chef...'',
                StatusUpdate ''Analysis Complete!'' ''complete'']],
            Inr (s\<lparr>analysis := result\<rparr>))"
  by (simp add: decode_nutrition_def assms try_except_def ui_return_def)

lemma decode_nutrition_call_fails:
  assumes "image_to_base64 L img = Inr b64" "call_gemini L api_key b64 = Inl e"
  shows "decode_nutrition L api_key img s =
           ([Within (''status: '' @ emoji_lens @ '' Analyzing food matrix...'')
               [Write ''Encoding image...'', Write ''Consulting AI Chef...'',
                StatusUpdate ''Analysis Failed'' ''error'',
                ErrorBox (''Error: '' @ str_exn (py_repr L) e)]],
            Inr s)"
  by (simp add: decode_nutrition_def assms try_except_def ui_return_def)

lemma decode_nutrition_encoding_fails:
  assumes "image_to_base64 L img = Inl e"
  shows "decode_nutrition L api_key img s =
           ([Within (''status: '' @ emoji_lens @ '' Analyzing food matrix...'')
               [Write ''Encoding image...'',
                StatusUpdate ''Analysis Failed'' ''error'',
                ErrorBox (''Error: '' @ str_exn (py_repr L) e)]],
            Inr s)"
  by (simp add: decode_nutrition_def assms try_except_def ui_return_def)

text \<open>The handler never lets an exception out, and only a success changes the store.\<close>

lemma decode_nutrition_cases:
  "(\<exists>ws result b64. image_to_base64 L img = Inr b64 \<and> call_gemini L api_key b64 = Inr result
       \<and> decode_nutrition L api_key img s = (ws, Inr (s\<lparr>analysis := result\<rparr>))
       \<and> shown_errors ws = [])
   \<or> (\<exists>ws e. (image_to_base64 L img = Inl e
                \<or> (\<exists>b64. image_to_base64 L img = Inr b64 \<and> call_gemini L api_key b64 = Inl e))
       \<and> decode_nutrition L api_key img s = (ws, Inr s)
       \<and> shown_errors ws = [''Error: '' @ str_exn (py_repr L) e])"
proof (cases "image_to_base64 L img")
  case (Inl e)
  then show ?thesis
    using decode_nutrition_encoding_fails [OF Inl, of api_key s] by (auto simp: shown_errors_def)
next
  case (Inr b64)
  show ?thesis
  proof (cases "call_gemini L api_key b64")
    case (Inl e)
    then show ?thesis
      using decode_nutrition_call_fails [OF Inr Inl, of s] Inr by (auto simp: shown_errors_def)
  next
    case r: (Inr result)
    then show ?thesis
      using decode_nutrition_success [OF Inr r, of s] Inr by (auto simp: shown_errors_def)
  qed
qed

subsection \<open>One run\<close>

lemma load_secrets_ok:
  "secrets_getitem sec ''GEMINI_API_KEY'' = Inr api_key \<Longrightarrow> load_secrets sec = ([], Inr api_key)"
  by (simp add: load_secrets_def ui_return_def)

text \<open>
  With the API key loaded, a run is the sidebar, the left panel and, unless the left panel
  raised, the right panel on the session the left panel left.
\<close>

lemma run_script_loaded:
  fixes ia :: interaction and st :: session_state
  assumes "secrets_getitem sec ''GEMINI_API_KEY'' = Inr api_key"
    and "left_panel L api_key ia (after_sidebar ia st) = (lw, lr)"
  shows "state_after (run_script L sec ia st)
           = save_session (case lr of Inl _ \<Rightarrow> after_sidebar ia st | Inr s' \<Rightarrow> s')"
    and "outcome (run_script L sec ia st)
           = (case lr of
                Inl sg \<Rightarrow> outcome_of sg
              | Inr s' \<Rightarrow> (case snd (right_panel L s') of
                             Inl sg \<Rightarrow> outcome_of sg | Inr _ \<Rightarrow> Completed))"
    and "shown_errors (page (run_script L sec ia st)) = shown_errors lw"
proof -
  let ?s = "after_sidebar ia st"
  note p0 = load_secrets_ok [OF assms(1)]
  obtain sw where sb: "sidebar ia (init_session st) = (sw, Inr ?s)"
    using sidebar_result [of ia "init_session st"] unfolding after_sidebar_def
    by (metis prod.collapse)
  have sw: "shown_errors sw = []"
    using calm_sidebar [of ia "init_session st"] sb by (simp add: calm_def)
  have rw: "shown_errors (fst (right_panel L s')) = []" for s'
    using calm_right_panel [of L s'] by (simp add: calm_def)
  show "state_after (run_script L sec ia st)
           = save_session (case lr of Inl _ \<Rightarrow> after_sidebar ia st | Inr s' \<Rightarrow> s')"
    by (cases lr) (simp_all add: run_script_def p0 sb assms(2) Let_def)
  show "outcome (run_script L sec ia st)
           = (case lr of
                Inl sg \<Rightarrow> outcome_of sg
              | Inr s' \<Rightarrow> (case snd (right_panel L s') of
                             Inl sg \<Rightarrow> outcome_of sg | Inr _ \<Rightarrow> Completed))"
    by (cases lr) (simp_all add: run_script_def p0 sb assms(2) Let_def)
  show "shown_errors (page (run_script L sec ia st)) = shown_errors lw"
    using sw rw by (cases lr) (simp_all add: run_script_def p0 sb assms(2) Let_def)
qed


lemma calm_left_panel:
  assumes "\<not> decode_clicked ia"
  shows "calm (left_panel L api_key ia s)"
  unfolding left_panel_def
  apply (simp only: assms if_False)
  apply (intro calm_intros calm_case_option calm_acquire_image)
  apply simp_all
  done

lemma left_panel_idle:
  assumes "\<not> decode_clicked ia" "snd (left_panel L api_key ia s) = Inr s'"
  shows "s' = s"
  using assms
  by (auto simp: left_panel_def snd_seq_Inr snd_andthen_Inr split: option.splits
      simp del: andthen_emit seq_emit)

lemma run_without_decode:
  fixes ia :: interaction and st :: session_state
  assumes "secrets_getitem sec ''GEMINI_API_KEY'' = Inr api_key" "\<not> decode_clicked ia"
  shows "state_after (run_script L sec ia st) = save_session (after_sidebar ia st)"
    and "shown_errors (page (run_script L sec ia st)) = []"
    and "outcome (run_script L sec ia st) =
           (case snd (left_panel L api_key ia (after_sidebar ia st)) of
              Inl sg \<Rightarrow> outcome_of sg
            | Inr _ \<Rightarrow> (case snd (right_panel L (after_sidebar ia st)) of
                         Inl sg \<Rightarrow> outcome_of sg | Inr _ \<Rightarrow> Completed))"
proof -
  let ?s = "after_sidebar ia st"
  obtain lw lr where lp: "left_panel L api_key ia ?s = (lw, lr)"
    by (cases "left_panel L api_key ia ?s")
  have lw: "shown_errors lw = []"
    using calm_left_panel [OF assms(2), of L api_key ?s] lp by (simp add: calm_def)
  have lr: "lr = Inr s' \<Longrightarrow> s' = ?s" for s'
    using left_panel_idle [OF assms(2), of L api_key ?s s'] lp by simp
  note r = run_script_loaded [OF assms(1) lp]
  show "state_after (run_script L sec ia st) = save_session ?s"
    using lr by (cases lr) (simp_all add: r(1))
  show "shown_errors (page (run_script L sec ia st)) = []"
    by (simp add: r(3) lw)
  show "outcome (run_script L sec ia st) =
           (case snd (left_panel L api_key ia ?s) of
              Inl sg \<Rightarrow> outcome_of sg
            | Inr _ \<Rightarrow> (case snd (right_panel L ?s) of
                         Inl sg \<Rightarrow> outcome_of sg | Inr _ \<Rightarrow> Completed))"
    using lr by (cases lr) (simp_all add: r(2) lp)
qed

lemma run_no_picture:
  assumes "secrets_getitem sec ''GEMINI_API_KEY'' = Inr api_key"
    and "input_choice ia = Camera" "camera_photo ia = None" "\<not> decode_clicked ia"
  shows "outcome (run_script L sec ia st) =
           (case snd (right_panel L (after_sidebar ia st)) of
              Inl sg \<Rightarrow> outcome_of sg | Inr _ \<Rightarrow> Completed)"
proof -
  have "snd (left_panel L api_key ia s) = Inr s" for s
    using assms(2,3) by (simp add: left_panel_def acquire_image_def)
  then show ?thesis
    using run_without_decode(3) [OF assms(1,4), where L = L and st = st] by simp
qed

subsection \<open>The Model Client\<close>








subsection \<open>A goal of zero\<close>

lemma snd_right_panel:
  assumes "truthy (analysis s)"
  shows "snd (right_panel L s) =
           (case snd (panel_header L (analysis s)) of
              Inl sg \<Rightarrow> Inl sg
            | Inr _ \<Rightarrow>
               (case snd (tab_nutrition L (analysis s) (goals s)) of
                  Inl sg \<Rightarrow> Inl sg
                | Inr _ \<Rightarrow>
                   (case snd (tab_recipe L (analysis s)) of
                      Inl sg \<Rightarrow> Inl sg
                    | Inr _ \<Rightarrow> snd (tab_alerts L (analysis s)))))"
  using assms by (simp add: right_panel_def snd_block del: andthen_emit split: sum.split)

lemma truthy_sample [simp]: "truthy sample_analysis"
  by (simp add: sample_analysis_def)

lemma header_sample: "snd (panel_header L sample_analysis) = Inr ()"
  by (simp add: panel_header_def badges_def sample_analysis_def snd_block
      del: andthen_emit seq_emit)

lemma zero_division:
  "int_truediv c 0 = Inl (ZeroDivisionError ''division by zero'')"
  "bind (int_to_float 0) (float_div f) = Inl (ZeroDivisionError ''float division by zero'')"
  by (simp_all add: int_truediv_def int_to_float_def float_div_def overflows_def)

lemma tab_nutrition_sample:
  assumes "calories g \<noteq> 0" "\<bar>calories g\<bar> \<le> 2 ^ 1000"
  shows "snd (tab_nutrition L sample_analysis g) =
           (case progress_value (JInt 150) (proteinG g) of
              Inl e \<Rightarrow> Inl (Raise e)
            | Inr _ \<Rightarrow>
               (case progress_value (JFloat (Finite (125 / 2))) (carbsG g) of
                  Inl e \<Rightarrow> Inl (Raise e)
                | Inr _ \<Rightarrow>
                   (case progress_value (JInt 20) (fatG g) of
                      Inl e \<Rightarrow> Inl (Raise e)
                    | Inr _ \<Rightarrow> Inr ())))"
  using assms
  by (simp add: tab_nutrition_def energy_metric_def macro_card_def sample_analysis_def
      percent_int snd_block del: andthen_emit seq_emit split: sum.split)

lemma tab_nutrition_sample_zero:
  "snd (tab_nutrition L sample_analysis (g\<lparr>calories := 0\<rparr>))
     = Inl (Raise (ZeroDivisionError ''division by zero''))"
  by (simp add: tab_nutrition_def energy_metric_def sample_analysis_def percent_of_goal_def
      zero_division snd_block del: andthen_emit seq_emit)

lemma round64_250: "round64 250 = 250"
  by (subst round64_eval [of 7]) (simp_all add: pow2_def rhe_unfold)

lemma round64_quarter: "round64 (1 / 4) = 1 / 4"
  using round64_pow2 [of "- 2"] by (simp add: pow2_def)

lemma progress_carbs_sample: "progress_value (JFloat (Finite (125 / 2))) 250 = Inr (Finite (1 / 4))"
  by (simp add: progress_value_def int_to_float_def round64_250 small_not_overflows float_div_def
      finite_result_def round64_quarter py_min_def)

lemma progress_protein_sample: "progress_value (JInt 150) 120 = Inr (Finite 1)"
  by (simp add: progress_value_def truediv_150_120 py_min_one)

lemma after_sidebar_sample:
  "after_sidebar ia sample_state =
     \<lparr>analysis = sample_analysis, goals = entered_goals ia default_goal\<rparr>"
  by (simp add: after_sidebar_def init_session_def sample_state_def default_goal_def)

lemma zero_goal_runs:
  assumes "secrets_getitem sec ''GEMINI_API_KEY'' = Inr api_key"
  shows "outcome (run_script L sec (idle\<lparr>entered_calories := Some 0\<rparr>) sample_state)
           = Uncaught (ZeroDivisionError ''division by zero'')"
    and "outcome (run_script L sec (idle\<lparr>entered_protein := Some 0\<rparr>) sample_state)
           = Uncaught (ZeroDivisionError ''division by zero'')"
    and "outcome (run_script L sec (idle\<lparr>entered_carbs := Some 0\<rparr>) sample_state)
           = Uncaught (ZeroDivisionError ''float division by zero'')"
    and "outcome (run_script L sec (idle\<lparr>entered_fat := Some 0\<rparr>) sample_state)
           = Uncaught (ZeroDivisionError ''division by zero'')"
proof -
  note r = run_no_picture [OF assms, where L = L and st = sample_state]
  have g: "entered_goals (idle\<lparr>entered_calories := Some 0\<rparr>) default_goal
             = \<lparr>calories = 0, proteinG = 120, carbsG = 250, fatG = 65\<rparr>"
    "entered_goals (idle\<lparr>entered_protein := Some 0\<rparr>) default_goal
             = \<lparr>calories = 2000, proteinG = 0, carbsG = 250, fatG = 65\<rparr>"
    "entered_goals (idle\<lparr>entered_carbs := Some 0\<rparr>) default_goal
             = \<lparr>calories = 2000, proteinG = 120, carbsG = 0, fatG = 65\<rparr>"
    "entered_goals (idle\<lparr>entered_fat := Some 0\<rparr>) default_goal
             = \<lparr>calories = 2000, proteinG = 120, carbsG = 250, fatG = 0\<rparr>"
    by (simp_all add: entered_goals_def idle_def default_goal_def)
  have z: "snd (tab_nutrition L sample_analysis \<lparr>calories = 0, proteinG = 120, carbsG = 250, fatG = 65\<rparr>)
     = Inl (Raise (ZeroDivisionError ''division by zero''))"
    using tab_nutrition_sample_zero [of L "\<lparr>calories = 0, proteinG = 120, carbsG = 250, fatG = 65\<rparr>"]
    by simp
  show "outcome (run_script L sec (idle\<lparr>entered_calories := Some 0\<rparr>) sample_state)
           = Uncaught (ZeroDivisionError ''division by zero'')"
    by (subst r) (simp_all add: idle_def [symmetric] after_sidebar_sample g snd_right_panel header_sample z, simp_all add: idle_def)
  show "outcome (run_script L sec (idle\<lparr>entered_protein := Some 0\<rparr>) sample_state)
           = Uncaught (ZeroDivisionError ''division by zero'')"
    by (subst r) (simp_all add: after_sidebar_sample g snd_right_panel header_sample
        tab_nutrition_sample progress_value_def zero_division, simp_all add: idle_def)
  show "outcome (run_script L sec (idle\<lparr>entered_carbs := Some 0\<rparr>) sample_state)
           = Uncaught (ZeroDivisionError ''float division by zero'')"
    by (subst r) (simp_all add: after_sidebar_sample g snd_right_panel header_sample
        tab_nutrition_sample progress_protein_sample,
        simp_all add: idle_def progress_value_def zero_division)
  show "outcome (run_script L sec (idle\<lparr>entered_fat := Some 0\<rparr>) sample_state)
           = Uncaught (ZeroDivisionError ''division by zero'')"
    by (subst r) (simp_all add: after_sidebar_sample g snd_right_panel header_sample
        tab_nutrition_sample progress_protein_sample progress_carbs_sample,
        simp_all add: idle_def progress_value_def zero_division)
qed

lemma zero_goal_quiet:
  assumes "secrets_getitem sec ''GEMINI_API_KEY'' = Inr api_key"
  shows "shown_errors (page (run_script L sec (idle\<lparr>entered_calories := Some 0\<rparr>) st)) = []"
    and "shown_errors (page (run_script L sec (idle\<lparr>entered_protein := Some 0\<rparr>) st)) = []"
    and "shown_errors (page (run_script L sec (idle\<lparr>entered_carbs := Some 0\<rparr>) st)) = []"
    and "shown_errors (page (run_script L sec (idle\<lparr>entered_fat := Some 0\<rparr>) st)) = []"
  by (rule run_without_decode(2) [OF assms], simp add: idle_def)+

lemma example_key: "secrets_getitem example_secrets ''GEMINI_API_KEY'' = Inr ''K''"
  by (simp add: secrets_getitem_def example_secrets_def)

text \<open>
  \<^bold>\<open>C7.\<close> A goal of zero is not guarded against. The percentage of line 229 and the
  progress value of a macro card divide by the goal with no test before the division: on a
  goal of 0 they raise \<^verbatim>\<open>ZeroDivisionError\<close>, for an \<^verbatim>\<open>int\<close> value and for a \<^verbatim>\<open>float\<close> one.
  No handler is on the way out: in a run on a session that holds an analysis, with the user
  having typed 0 into any one of the four goal fields of the sidebar, the exception leaves
  the script, and the page shows no error message of the script's own.
\<close>

theorem zero_goal_unguarded:
  "percent_of_goal (JInt c) 0 = Inl (ZeroDivisionError ''division by zero'')
   \<and> percent_of_goal (JFloat f) 0 = Inl (ZeroDivisionError ''float division by zero'')
   \<and> progress_value (JInt c) 0 = Inl (ZeroDivisionError ''division by zero'')
   \<and> progress_value (JFloat f) 0 = Inl (ZeroDivisionError ''float division by zero'')
   \<and> outcome (run_script L example_secrets (idle\<lparr>entered_calories := Some 0\<rparr>) sample_state)
       = Uncaught (ZeroDivisionError ''division by zero'')
   \<and> outcome (run_script L example_secrets (idle\<lparr>entered_protein := Some 0\<rparr>) sample_state)
       = Uncaught (ZeroDivisionError ''division by zero'')
   \<and> outcome (run_script L example_secrets (idle\<lparr>entered_carbs := Some 0\<rparr>) sample_state)
       = Uncaught (ZeroDivisionError ''float division by zero'')
   \<and> outcome (run_script L example_secrets (idle\<lparr>entered_fat := Some 0\<rparr>) sample_state)
       = Uncaught (ZeroDivisionError ''division by zero'')
   \<and> shown_errors (page (run_script L example_secrets (idle\<lparr>entered_calories := Some 0\<rparr>) sample_state)) = []
   \<and> shown_errors (page (run_script L example_secrets (idle\<lparr>entered_protein := Some 0\<rparr>) sample_state)) = []
   \<and> shown_errors (page (run_script L example_secrets (idle\<lparr>entered_carbs := Some 0\<rparr>) sample_state)) = []
   \<and> shown_errors (page (run_script L example_secrets (idle\<lparr>entered_fat := Some 0\<rparr>) sample_state)) = []"
  by (simp add: zero_goal_runs [OF example_key] zero_goal_quiet [OF example_key]
      percent_of_goal_def progress_value_def zero_division)

subsection \<open>A risk level outside the mapping\<close>

lemma progress_fat_sample: "progress_value (JInt 20) 65 = Inr (Finite (round64 (4 / 13)))"
  using progress_int [of 65 20] int_truediv_ranged [of 65 20] by simp

lemma tab_nutrition_default:
  assumes "getitem data ''calories'' = Inr (JInt 600)"
    and "getitem data ''macronutrients'' =
           Inr (JObj [(''proteinG'', JInt 150), (''carbsG'', JFloat (Finite (125 / 2))),
                      (''fatG'', JInt 20)])"
  shows "snd (tab_nutrition L data default_goal) = Inr ()"
  by (simp add: tab_nutrition_def energy_metric_def macro_card_def assms default_goal_def
      percent_int progress_protein_sample progress_carbs_sample progress_fat_sample snd_block
      del: andthen_emit seq_emit)

lemma tab_recipe_sample:
  assumes "getitem data ''recipe'' =
             Inr (JObj [(''title'', JStr ''Quick Pad Thai''),
                        (''ingredients'', JArr [JStr ''200 g rice noodles'', JStr ''2 eggs'']),
                        (''instructions'', JArr [JStr ''Soak the noodles.'', JStr ''Stir-fry.''])])"
  shows "snd (tab_recipe L data) = Inr ()"
  by (simp add: tab_recipe_def assms snd_block del: andthen_emit seq_emit)

lemma header_severe: "snd (panel_header L severe_analysis) = Inr ()"
  by (simp add: panel_header_def badges_def severe_analysis_def snd_block
      del: andthen_emit seq_emit)

lemma getitem_truthy: "getitem data k = Inr v \<Longrightarrow> truthy data"
  by (cases data) (auto split: option.splits)

lemma right_panel_raises:
  assumes "truthy (analysis s)" "snd (tab_alerts L (analysis s)) = Inl (Raise e)"
  shows "\<exists>e'. snd (right_panel L s) = Inl (Raise e')"
proof (cases "snd (right_panel L s)")
  case (Inl sg)
  then show ?thesis
    using calm_right_panel [of L s] by (cases sg) (simp_all add: calm_def)
next
  case (Inr u)
  then show ?thesis
    using right_panel_needs_tab_alerts [OF assms(1), of L u] assms(2) by simp
qed

text \<open>
  \<^bold>\<open>C10.\<close> Let the left panel of a run complete and leave a session whose analysis has an
  \<^verbatim>\<open>allergenAlert.riskLevel\<close> other than \<^verbatim>\<open>"High"\<close>, \<^verbatim>\<open>"Medium"\<close> and \<^verbatim>\<open>"Low"\<close> (the Model
  Client validates nothing, so the store can hold one). Then the lookup of the level in the
  severity-to-color mapping raises (\<^verbatim>\<open>KeyError\<close> of the level when it is hashable), the risk
  rendering shows nothing and ends with that exception, and the run ends with an uncaught
  exception: this very one when the header and the first two tabs have rendered. The right
  panel is outside the handler of the analysis: the only error messages on the page are
  those of the left panel, and there is none when the Decode button was not pressed.
\<close>

theorem unknown_risk_level_uncaught:
  fixes ia :: interaction and st :: session_state and s :: session
  assumes "secrets_getitem sec ''GEMINI_API_KEY'' = Inr api_key"
    and "left_panel L api_key ia (after_sidebar ia st) = (lw, Inr s)"
    and "getitem (analysis s) ''allergenAlert'' = Inr alert"
    and "getitem alert ''riskLevel'' = Inr v"
    and "v \<noteq> JStr ''High''" "v \<noteq> JStr ''Medium''" "v \<noteq> JStr ''Low''"
  shows "\<exists>e. lookup_literal risk_color v = Inl e
           \<and> (hashable v \<longrightarrow> e = KeyError v)
           \<and> tab_alerts L (analysis s) = ([], Inl (Raise e))
           \<and> (\<exists>e'. outcome (run_script L sec ia st) = Uncaught e')
           \<and> (snd (panel_header L (analysis s)) = Inr ()
                \<longrightarrow> snd (tab_nutrition L (analysis s) (goals s)) = Inr ()
                \<longrightarrow> snd (tab_recipe L (analysis s)) = Inr ()
                \<longrightarrow> outcome (run_script L sec ia st) = Uncaught e)
           \<and> shown_errors (page (run_script L sec ia st)) = shown_errors lw
           \<and> (\<not> decode_clicked ia \<longrightarrow> shown_errors (page (run_script L sec ia st)) = [])"
proof -
  define e where "e = (if hashable v then KeyError v
                       else TypeError (''unhashable type: '' @ quoted (type_name v)))"
  have look: "lookup_literal risk_color v = Inl e"
    using assms(5-7) unfolding e_def
    by (cases v) (auto simp: lookup_literal_def risk_color_def split: option.splits if_splits)
  have tab: "tab_alerts L (analysis s) = ([], Inl (Raise e))"
    unfolding e_def by (rule tab_alerts_bad_level [OF assms(3-7)])
  have t: "truthy (analysis s)"
    using assms(3) by (rule getitem_truthy)
  note r = run_script_loaded [OF assms(1,2)]
  obtain e' where e': "snd (right_panel L s) = Inl (Raise e')"
    using right_panel_raises [OF t, of L e] tab by auto
  have out: "outcome (run_script L sec ia st) = Uncaught e'"
    by (simp add: r(2) e')
  have exact: "outcome (run_script L sec ia st) = Uncaught e"
    if "snd (panel_header L (analysis s)) = Inr ()"
      "snd (tab_nutrition L (analysis s) (goals s)) = Inr ()"
      "snd (tab_recipe L (analysis s)) = Inr ()"
    by (simp add: r(2) snd_right_panel [OF t] that tab)
  have quiet: "shown_errors (page (run_script L sec ia st)) = []" if "\<not> decode_clicked ia"
    using run_without_decode(2) [OF assms(1) that] .
  show ?thesis
    using look tab out exact quiet r(3) by (intro exI [of _ e]) (simp add: e_def)
qed

lemma left_panel_nothing:
  "left_panel L api_key idle s =
     ([Within ''col1'' [Markdown (''#### '' @ emoji_camera @ '' Snap Your Meal''),
                        Radio ''Input method'' [''Camera'', ''Upload''],
                        CameraInput ''Take a photo'']], Inr s)"
  by (simp add: left_panel_def acquire_image_def idle_def ui_return_def)


lemma init_severe:
  "after_sidebar idle \<lparr>stored_analysis = Some severe_analysis, stored_goal = None\<rparr>
     = \<lparr>analysis = severe_analysis, goals = default_goal\<rparr>"
  by (simp add: after_sidebar_def init_session_def entered_goals_def idle_def default_goal_def)

text \<open>A stored analysis whose risk level is \<^verbatim>\<open>"Severe"\<close>, shown to a user who does nothing.\<close>

theorem unknown_risk_level_uncaught_witness:
  "\<forall>L.
   outcome (run_script L example_secrets idle
        \<lparr>stored_analysis = Some severe_analysis, stored_goal = None\<rparr>)
       = Uncaught (KeyError (JStr ''Severe''))
     \<and> shown_errors (page (run_script L example_secrets idle
        \<lparr>stored_analysis = Some severe_analysis, stored_goal = None\<rparr>)) = []
     \<and> tab_alerts L severe_analysis = ([], Inl (Raise (KeyError (JStr ''Severe''))))"
proof -
  have "outcome (run_script L example_secrets idle
      \<lparr>stored_analysis = Some severe_analysis, stored_goal = None\<rparr>)
     = Uncaught (KeyError (JStr ''Severe''))
   \<and> shown_errors (page (run_script L example_secrets idle
      \<lparr>stored_analysis = Some severe_analysis, stored_goal = None\<rparr>)) = []
   \<and> tab_alerts L severe_analysis = ([], Inl (Raise (KeyError (JStr ''Severe''))))" for L
  proof -
    let ?s = "\<lparr>analysis = severe_analysis, goals = default_goal\<rparr>"
    have left: "left_panel L ''K'' idle
                  (after_sidebar idle \<lparr>stored_analysis = Some severe_analysis, stored_goal = None\<rparr>)
                = ([Within ''col1'' [Markdown (''#### '' @ emoji_camera @ '' Snap Your Meal''),
                          Radio ''Input method'' [''Camera'', ''Upload''],
                          CameraInput ''Take a photo'']], Inr ?s)"
      by (simp only: left_panel_nothing init_severe)
    have alert: "getitem (analysis ?s) ''allergenAlert''
                   = Inr (JObj [(''riskLevel'', JStr ''Severe''),
                                (''detected'', JArr [JStr ''peanuts'']),
                                (''advice'', JStr ''Avoid'')])"
      by (simp add: severe_analysis_def)
    have level: "getitem (JObj [(''riskLevel'', JStr ''Severe''),
                                (''detected'', JArr [JStr ''peanuts'']),
                                (''advice'', JStr ''Avoid'')]) ''riskLevel'' = Inr (JStr ''Severe'')"
      by simp
    have h: "snd (panel_header L (analysis ?s)) = Inr ()"
      by (simp add: header_severe)
    have n: "snd (tab_nutrition L (analysis ?s) (goals ?s)) = Inr ()"
      by (simp add: tab_nutrition_default severe_analysis_def)
    have c: "snd (tab_recipe L (analysis ?s)) = Inr ()"
      by (simp add: tab_recipe_sample severe_analysis_def)
    have i: "\<not> decode_clicked idle"
      by (simp add: idle_def)
    show ?thesis
      using unknown_risk_level_uncaught [OF example_key left alert level] h n c i
      by auto
  qed
  then show ?thesis by blast
qed

subsection \<open>The keys that the right panel reads\<close>

lemma bind_eq_Inr: "bind m f = Inr b \<longleftrightarrow> (\<exists>a. m = Inr a \<and> f a = Inr b)"
  by (cases m) simp_all

lemma right_panel_parts:
  assumes "truthy (analysis s)" "snd (right_panel L s) = Inr u"
  shows "snd (panel_header L (analysis s)) = Inr ()"
    and "snd (tab_nutrition L (analysis s) (goals s)) = Inr ()"
    and "snd (tab_recipe L (analysis s)) = Inr ()"
    and "snd (tab_alerts L (analysis s)) = Inr ()"
  using assms
  by (simp_all add: right_panel_def snd_seq_Inr snd_andthen_Inr
      del: andthen_emit seq_emit seq_lift_Inr seq_lift_Inl)

lemma header_needs:
  assumes "snd (panel_header L data) = Inr u"
  shows "\<exists>v. getitem data ''foodName'' = Inr v"
    and "\<exists>v. getitem data ''cuisineType'' = Inr v"
    and "\<exists>v. getitem data ''insightSummary'' = Inr v"
  using assms
  by (auto simp: panel_header_def badges_def snd_seq_Inr snd_andthen_Inr snd_lift_Inr bind_eq_Inr
      simp del: andthen_emit seq_emit seq_lift_Inr seq_lift_Inl)

lemma tab_nutrition_needs:
  assumes "snd (tab_nutrition L data g) = Inr u"
  shows "\<exists>v. getitem data ''calories'' = Inr v"
    and "\<exists>m p c f. getitem data ''macronutrients'' = Inr m \<and> getitem m ''proteinG'' = Inr p
           \<and> getitem m ''carbsG'' = Inr c \<and> getitem m ''fatG'' = Inr f"
  using assms
  by (auto simp: tab_nutrition_def energy_metric_def snd_seq_Inr snd_andthen_Inr snd_lift_Inr
      bind_eq_Inr simp del: andthen_emit seq_emit seq_lift_Inr seq_lift_Inl)

lemma tab_recipe_needs:
  assumes "snd (tab_recipe L data) = Inr u"
  shows "\<exists>r t i n. getitem data ''recipe'' = Inr r \<and> getitem r ''title'' = Inr t
           \<and> getitem r ''ingredients'' = Inr i \<and> getitem r ''instructions'' = Inr n"
  using assms
  by (auto simp: tab_recipe_def snd_seq_Inr snd_andthen_Inr snd_lift_Inr
      bind_eq_Inr simp del: andthen_emit seq_emit seq_lift_Inr seq_lift_Inl)

lemma tab_alerts_needs:
  assumes "snd (tab_alerts L data) = Inr u"
  shows "\<exists>a l d v. getitem data ''allergenAlert'' = Inr a \<and> getitem a ''riskLevel'' = Inr l
           \<and> getitem a ''advice'' = Inr d \<and> getitem a ''detected'' = Inr v"
  using assms
  by (auto simp: tab_alerts_def snd_seq_Inr snd_andthen_Inr snd_lift_Inr
      bind_eq_Inr simp del: andthen_emit seq_emit seq_lift_Inr seq_lift_Inl)

text \<open>
  \<^bold>\<open>C9.\<close> For an analysis whose \<^verbatim>\<open>dietaryTags\<close> is the empty list, and also for one that
  has no such key, the badge line is the cuisine type alone, and rendering it raises
  nothing. No other key has a default: whenever the right panel renders an analysis to the
  end, the analysis has every other key that the panel reads, at the top level and inside
  \<^verbatim>\<open>macronutrients\<close>, \<^verbatim>\<open>recipe\<close> and \<^verbatim>\<open>allergenAlert\<close>.
\<close>

theorem dietary_tags_default:
  fixes s :: session
  assumes "map_of kvs ''cuisineType'' = Some c"
    and "map_of kvs ''dietaryTags'' = Some (JArr []) \<or> map_of kvs ''dietaryTags'' = None"
  shows "badges L (JObj kvs) = ([Markdown ([CHR 0x60] @ py_str (py_repr L) c @ [CHR 0x60])], Inr ())
       \<and> (analysis s = JObj kvs \<longrightarrow> snd (right_panel L s) = Inr () \<longrightarrow>
            (\<forall>k \<in> set [''foodName'', ''cuisineType'', ''insightSummary'', ''calories'',
                        ''macronutrients'', ''recipe'', ''allergenAlert''].
               \<exists>v. map_of kvs k = Some v)
          \<and> (\<forall>k \<in> set [''proteinG'', ''carbsG'', ''fatG''].
               \<exists>m v. map_of kvs ''macronutrients'' = Some m \<and> getitem m k = Inr v)
          \<and> (\<forall>k \<in> set [''title'', ''ingredients'', ''instructions''].
               \<exists>r v. map_of kvs ''recipe'' = Some r \<and> getitem r k = Inr v)
          \<and> (\<forall>k \<in> set [''riskLevel'', ''advice'', ''detected''].
               \<exists>a v. map_of kvs ''allergenAlert'' = Some a \<and> getitem a k = Inr v))"
proof (intro conjI impI)
  show "badges L (JObj kvs) = ([Markdown ([CHR 0x60] @ py_str (py_repr L) c @ [CHR 0x60])], Inr ())"
    using assms by (auto simp: badges_def emit_def)
next
  assume a: "analysis s = JObj kvs" and complete: "snd (right_panel L s) = Inr ()"
  have g: "getitem (JObj kvs) k = Inr v \<longleftrightarrow> map_of kvs k = Some v" for k v
    by (simp split: option.split)
  have t: "truthy (analysis s)"
    using assms(1) a by auto
  note p = right_panel_parts [OF t complete, unfolded a]
  note h = header_needs [OF p(1), unfolded g]
  note n = tab_nutrition_needs [OF p(2), unfolded g]
  note r = tab_recipe_needs [OF p(3), unfolded g]
  note al = tab_alerts_needs [OF p(4), unfolded g]
  show "\<forall>k \<in> set [''foodName'', ''cuisineType'', ''insightSummary'', ''calories'',
                        ''macronutrients'', ''recipe'', ''allergenAlert''].
               \<exists>v. map_of kvs k = Some v"
    using h n r al by auto
  show "\<forall>k \<in> set [''proteinG'', ''carbsG'', ''fatG''].
               \<exists>m v. map_of kvs ''macronutrients'' = Some m \<and> getitem m k = Inr v"
    using n(2) by auto
  show "\<forall>k \<in> set [''title'', ''ingredients'', ''instructions''].
               \<exists>r v. map_of kvs ''recipe'' = Some r \<and> getitem r k = Inr v"
    using r by auto
  show "\<forall>k \<in> set [''riskLevel'', ''advice'', ''detected''].
               \<exists>a v. map_of kvs ''allergenAlert'' = Some a \<and> getitem a k = Inr v"
    using al by auto
qed

lemma header_untagged: "snd (panel_header L untagged_analysis) = Inr ()"
  by (simp add: panel_header_def badges_def untagged_analysis_def untagged_fields_def snd_block
      del: andthen_emit seq_emit)

lemma tab_alerts_untagged: "snd (tab_alerts L untagged_analysis) = Inr ()"
  by (simp add: tab_alerts_def untagged_analysis_def untagged_fields_def lookup_literal_def
      risk_color_def snd_block foreach_emit del: andthen_emit seq_emit)

lemma right_panel_untagged:
  "snd (right_panel L \<lparr>analysis = untagged_analysis, goals = default_goal\<rparr>) = Inr ()"
proof -
  have t: "truthy (analysis \<lparr>analysis = untagged_analysis, goals = default_goal\<rparr>)"
    by (simp add: untagged_analysis_def untagged_fields_def)
  have n: "snd (tab_nutrition L untagged_analysis default_goal) = Inr ()"
    by (rule tab_nutrition_default) (simp_all add: untagged_analysis_def untagged_fields_def)
  have r: "snd (tab_recipe L untagged_analysis) = Inr ()"
    by (rule tab_recipe_sample) (simp add: untagged_analysis_def untagged_fields_def)
  show ?thesis
    by (simp add: snd_right_panel [OF t] header_untagged n r tab_alerts_untagged)
qed

text \<open>An analysis without the key \<^verbatim>\<open>dietaryTags\<close> is rendered to the end.\<close>

theorem dietary_tags_default_witness:
  "\<forall>L.
   map_of untagged_fields ''dietaryTags'' = None
     \<and> badges L untagged_analysis = ([Markdown ([CHR 0x60] @ ''Thai'' @ [CHR 0x60])], Inr ())
     \<and> snd (right_panel L \<lparr>analysis = untagged_analysis, goals = default_goal\<rparr>) = Inr ()
     \<and> (\<exists>m v. map_of untagged_fields ''macronutrients'' = Some m \<and> getitem m ''fatG'' = Inr v)"
proof -
  have "map_of untagged_fields ''dietaryTags'' = None
   \<and> badges L untagged_analysis = ([Markdown ([CHR 0x60] @ ''Thai'' @ [CHR 0x60])], Inr ())
   \<and> snd (right_panel L \<lparr>analysis = untagged_analysis, goals = default_goal\<rparr>) = Inr ()
   \<and> (\<exists>m v. map_of untagged_fields ''macronutrients'' = Some m \<and> getitem m ''fatG'' = Inr v)" for L
  proof -
    have c: "map_of untagged_fields ''cuisineType'' = Some (JStr ''Thai'')"
      by (simp add: untagged_fields_def)
    have d: "map_of untagged_fields ''dietaryTags'' = None"
      by (simp add: untagged_fields_def)
    have a: "analysis \<lparr>analysis = untagged_analysis, goals = default_goal\<rparr> = JObj untagged_fields"
      by (simp add: untagged_analysis_def)
    from dietary_tags_default [OF c disjI2 [OF d], of L "\<lparr>analysis = untagged_analysis, goals = default_goal\<rparr>"]
    show ?thesis
      using a d right_panel_untagged [of L] by (simp add: untagged_analysis_def)
  qed
  then show ?thesis by blast
qed

subsection \<open>The macro chart\<close>




subsection \<open>Loading the API key\<close>


subsection \<open>The Encoder\<close>
















end
